theory Spec2Isabelle
  imports Complex_Main "HOL-Library.AList"
begin

section \<open>Data model\<close>

text \<open>
  The scene controller \<open>RobotScene\<close> exists in two listings of \<open>src/RobotScene.ts\<close>: the
  first one (WebXR user interface, lines 1-1706) and the second one (desktop user interface
  with progress tracking, lines 1715-3804). The gizmo selection, the pointer handler and the
  load bookkeeping are the same text in both; the listings differ in the default camera angle
  and in the progress aggregator, which only the second one has.

  JavaScript numbers are modelled as \<open>real\<close> (finite values, no rounding); counters that the
  code increments and decrements are \<open>int\<close>. Objects that the code compares with \<open>===\<close> carry
  an explicit identity field.
\<close>

datatype Listing = FirstListing | SecondListing

datatype JointType = Fixed | Revolute | Continuous | Prismatic | Floating | Planar

datatype Vector3 = Vector3 (vec_x: real) (vec_y: real) (vec_z: real)

datatype Color3 = Red | Green | Blue

type_synonym TransformNode = nat

record AbstractMesh =
  mesh_obj :: nat
  mesh_parent :: "TransformNode option"
  minimumWorld :: Vector3
  maximumWorld :: Vector3

datatype GeometryClass = BoxGeometry | SphereGeometry | CylinderGeometry | MeshGeometry

record Geometry =
  geom_class :: GeometryClass
  meshes :: "AbstractMesh list option"

record Visual =
  geometry :: "Geometry option"

record Link =
  link_name :: string
  visuals :: "Visual list"

record Joint =
  joint_obj :: nat
  joint_name :: string
  joint_type :: JointType
  axis :: Vector3
  transform :: "TransformNode option"
  child :: "Link option"

text \<open>\<open>Robot.links\<close> and \<open>Robot.joints\<close> are JavaScript Maps, iterated in insertion order.\<close>

record Robot =
  links :: "(string \<times> Link) list"
  joints :: "(string \<times> Joint) list"

record JointRotationGizmo =
  rot_joint :: Joint
  rot_color :: Color3
  rot_scaleRatio :: real
  rot_attachedNode :: "TransformNode option"
  enableLimits :: bool

record JointPositionGizmo =
  pos_joint :: Joint
  pos_color :: Color3
  pos_scaleRatio :: real
  pos_attachedNode :: "TransformNode option"

datatype ExerciseGizmo = RotationGizmo JointRotationGizmo | PositionGizmo JointPositionGizmo

text \<open>
  The camera: the four properties the controller assigns, and the position the camera
  computed when it last built its view matrix.
\<close>

record ArcRotateCamera =
  cam_alpha :: real
  cam_beta :: real
  cam_radius :: real
  cam_target :: Vector3
  cam_position :: Vector3

text \<open>
  The status display: \<open>status3DText\<close> of the first listing (possibly undefined) or
  \<open>statusLabel\<close> of the second one (always there). Its text is either empty or the
  description of a joint that \<open>updateJointStatusLabel\<close> composes.
\<close>

datatype StatusText = EmptyText | JointText string JointType

text \<open>Deferred work handed to \<open>setTimeout\<close>.\<close>

datatype Task = FrameThenMirror | MirrorOnly

text \<open>What the controller does to its collaborators, in the order it does it.\<close>

datatype Effect =
    Progress int int real
  | DisposeRobot Robot
  | CreateRobot Robot
  | ConsoleLog string
  | ConsoleError string
  | PostMessage string string
  | SetTimeout Task nat
  | UpdateMirrorReflections

type_synonym meshId = nat

record ProgressEvent =
  lengthComputable :: bool
  ev_loaded :: real
  ev_total :: real

record RobotScene =
  scene :: bool
  camera :: "ArcRotateCamera option"
  currentURDF :: "string option"
  currentRobot :: "Robot option"
  statusText :: "StatusText option"
  hoveredJoint :: "Joint option"
  planeRotationGizmo :: "JointRotationGizmo option"
  planePositionGizmo :: "JointPositionGizmo option"
  hasBeenFramed :: bool
  pendingMeshLoads :: int
  savedFramingTarget :: Vector3
  savedFramingRadius :: real
  savedFramingAlpha :: real
  savedFramingBeta :: real
  totalMeshes :: int
  loadedMeshes :: int
  meshLoadProgress :: "(meshId \<times> real) list"
  onProgressCallback :: bool
  liveGizmos :: "ExerciseGizmo list"
  timers :: "Task list"
  effects :: "Effect list"

text \<open>
  \<open>scene\<close> and \<open>onProgressCallback\<close> say whether the field is defined. The key
  \<open>mesh_<i>\<close> of \<open>meshLoadProgress\<close> is represented by its index \<open>i\<close>. The last three
  fields are the environment: the exercise gizmos constructed and not yet disposed, the
  pending \<open>setTimeout\<close> tasks, and the log of effects.
\<close>

definition emit :: "Effect \<Rightarrow> RobotScene \<Rightarrow> RobotScene" where
  "emit e s = s\<lparr>effects := effects s @ [e]\<rparr>"

definition setTimeout :: "Task \<Rightarrow> nat \<Rightarrow> RobotScene \<Rightarrow> RobotScene" where
  "setTimeout t ms s = s\<lparr>timers := timers s @ [t], effects := effects s @ [SetTimeout t ms]\<rparr>"

section \<open>Status display and exercise gizmos\<close>

text \<open>
  A gizmo is the record of what \<open>addExerciseGizmoToJoint\<close> passes to its constructor and
  assigns afterwards. The drag observer added to a rotation gizmo, which refreshes the status
  label while the user drags, is not part of the model.
\<close>

definition clearStatus :: "RobotScene \<Rightarrow> RobotScene" where
  "clearStatus s = s\<lparr>statusText := map_option (\<lambda>_. EmptyText) (statusText s)\<rparr>"

definition updateJointStatusLabel :: "Joint \<Rightarrow> RobotScene \<Rightarrow> RobotScene" where
  "updateJointStatusLabel joint s =
     (if transform joint = None then s
      else s\<lparr>statusText :=
             map_option (\<lambda>_. JointText (joint_name joint) (joint_type joint)) (statusText s)\<rparr>)"

definition dispose_rot :: "JointRotationGizmo option \<Rightarrow> RobotScene \<Rightarrow> RobotScene" where
  "dispose_rot g s =
     (case g of None \<Rightarrow> s
      | Some r \<Rightarrow> s\<lparr>liveGizmos := remove1 (RotationGizmo r) (liveGizmos s)\<rparr>)"

definition dispose_pos :: "JointPositionGizmo option \<Rightarrow> RobotScene \<Rightarrow> RobotScene" where
  "dispose_pos g s =
     (case g of None \<Rightarrow> s
      | Some p \<Rightarrow> s\<lparr>liveGizmos := remove1 (PositionGizmo p) (liveGizmos s)\<rparr>)"

definition clearJointExerciseGizmos :: "RobotScene \<Rightarrow> RobotScene" where
  "clearJointExerciseGizmos s =
     (let s1 = (dispose_rot (planeRotationGizmo s) s)\<lparr>planeRotationGizmo := None\<rparr>;
          s2 = (dispose_pos (planePositionGizmo s1) s1)\<lparr>planePositionGizmo := None\<rparr>
      in s2)"

definition new_rotation_gizmo :: "Joint \<Rightarrow> Color3 \<Rightarrow> RobotScene \<Rightarrow> RobotScene" where
  "new_rotation_gizmo joint c s =
     (let g = \<lparr>rot_joint = joint, rot_color = c, rot_scaleRatio = 0.75,
                rot_attachedNode = transform joint,
                enableLimits = (joint_type joint \<noteq> Continuous)\<rparr>
      in s\<lparr>planeRotationGizmo := Some g, liveGizmos := liveGizmos s @ [RotationGizmo g]\<rparr>)"

definition new_position_gizmo :: "Joint \<Rightarrow> Color3 \<Rightarrow> RobotScene \<Rightarrow> RobotScene" where
  "new_position_gizmo joint c s =
     (let g = \<lparr>pos_joint = joint, pos_color = c, pos_scaleRatio = 0.75,
                pos_attachedNode = transform joint\<rparr>
      in s\<lparr>planePositionGizmo := Some g, liveGizmos := liveGizmos s @ [PositionGizmo g]\<rparr>)"

definition planar_notice :: "string \<Rightarrow> string" where
  "planar_notice n = ''Joint '' @ n @ '' is using a planar joint, which is not yet supported for exercise gizmos. If you would like to see this, please open an issue on the GitHub repository.''"

definition floating_notice :: "string \<Rightarrow> string" where
  "floating_notice n = ''Joint '' @ n @ '' is using a floating joint, which is not yet supported for exercise gizmos. If you would like to see this, please open an issue on the GitHub repository.''"

definition type_string :: "JointType \<Rightarrow> string" where
  "type_string t = (case t of Fixed \<Rightarrow> ''fixed'' | Revolute \<Rightarrow> ''revolute''
      | Continuous \<Rightarrow> ''continuous'' | Prismatic \<Rightarrow> ''prismatic''
      | Floating \<Rightarrow> ''floating'' | Planar \<Rightarrow> ''planar'')"

definition rotation_case :: "Joint \<Rightarrow> RobotScene \<Rightarrow> RobotScene" where
  "rotation_case joint s =
     (if \<bar>vec_y (axis joint)\<bar> > 0.5 then
        new_rotation_gizmo joint Green
          (emit (ConsoleLog (''Joint '' @ joint_name joint @ '' is primarily rotating around y-axis'')) s)
      else if \<bar>vec_z (axis joint)\<bar> > 0.5 then
        new_rotation_gizmo joint Blue
          (emit (ConsoleLog (''Joint '' @ joint_name joint @ '' is primarily rotating around z-axis'')) s)
      else
        new_rotation_gizmo joint Red
          (emit (ConsoleLog (''Joint '' @ joint_name joint @ '' rotating around x-axis'')) s))"

definition position_case :: "Joint \<Rightarrow> RobotScene \<Rightarrow> RobotScene" where
  "position_case joint s =
     (let s0 = s\<lparr>planePositionGizmo := None\<rparr>
      in if \<bar>vec_y (axis joint)\<bar> > 0.5 then new_position_gizmo joint Blue s0
         else if \<bar>vec_z (axis joint)\<bar> > 0.5 then new_position_gizmo joint Red s0
         else new_position_gizmo joint Green s0)"

definition addExerciseGizmoToJoint :: "Joint \<Rightarrow> RobotScene \<Rightarrow> RobotScene" where
  "addExerciseGizmoToJoint joint s =
     (if transform joint = None then
        emit (ConsoleLog (''No transform for joint: '' @ joint_name joint)) s
      else
        let s1 = emit (ConsoleLog (''Creating gizmo for joint: '' @ joint_name joint
                                   @ '', type: '' @ type_string (joint_type joint))) s
        in if joint_type joint = Fixed then s1
           else (case joint_type joint of
                   Continuous \<Rightarrow> rotation_case joint s1
                 | Revolute \<Rightarrow> rotation_case joint s1
                 | Prismatic \<Rightarrow> position_case joint s1
                 | Planar \<Rightarrow> emit (ConsoleLog (planar_notice (joint_name joint))) s1
                 | Floating \<Rightarrow> emit (ConsoleLog (floating_notice (joint_name joint))) s1
                 | Fixed \<Rightarrow> s1))"

section \<open>Joint selection by pointer\<close>

text \<open>
  The handler \<open>castRay\<close> installed by \<open>setupJointSelection\<close>. \<open>selectedVisual\<close> is never
  assigned in either listing (the only assignment is inside a comment), so its branch is not
  part of the model. The argument is \<open>hit?.pickedMesh\<close>, the mesh the picking ray met.
\<close>

definition visualHasMesh :: "AbstractMesh \<Rightarrow> Visual \<Rightarrow> bool" where
  "visualHasMesh picked v =
     (case geometry v of None \<Rightarrow> False
      | Some g \<Rightarrow> (case meshes g of None \<Rightarrow> False
                  | Some ms \<Rightarrow> list_ex (\<lambda>m. mesh_obj m = mesh_obj picked) ms))"

text \<open>The meshes of a link's visuals that are the picked mesh, in the order of the two loops.\<close>

definition matchingMeshes :: "AbstractMesh \<Rightarrow> Link \<Rightarrow> AbstractMesh list" where
  "matchingMeshes picked c =
     concat (map (\<lambda>v. case geometry v of None \<Rightarrow> []
                       | Some g \<Rightarrow> (case meshes g of None \<Rightarrow> []
                                   | Some ms \<Rightarrow> filter (\<lambda>m. mesh_obj m = mesh_obj picked) ms))
                 (visuals c))"

text \<open>
  One round of the \<open>forEach\<close> over \<open>joints.entries()\<close>; the \<open>return\<close> statements in the
  source leave the callback, not the loop. The accumulator is \<open>foundJoint\<close> with the lines
  written to the console: in the search through the child link, one line for each mesh that
  is the picked one.
\<close>

definition searchStep ::
  "AbstractMesh \<Rightarrow> Joint option \<times> string list \<Rightarrow> string \<times> Joint \<Rightarrow> Joint option \<times> string list" where
  "searchStep picked acc e =
     (let j = snd e; foundJoint = fst acc; logs = snd acc
      in if joint_type j = Fixed then acc
         else (case transform j of None \<Rightarrow> acc
               | Some t \<Rightarrow>
                   if mesh_parent picked = Some t then
                     (Some j, logs @ [''Found joint (direct parent): '' @ joint_name j])
                   else (case child j of None \<Rightarrow> acc
                         | Some c \<Rightarrow>
                             if foundJoint = None \<and> list_ex (visualHasMesh picked) (visuals c) then
                               (Some j, logs @ replicate (length (matchingMeshes picked c))
                                                 (''Found joint (child link visual): '' @ joint_name j))
                             else acc)))"

definition findJoint :: "AbstractMesh \<Rightarrow> Robot \<Rightarrow> Joint option \<times> string list" where
  "findJoint picked r = foldl (searchStep picked) (None, []) (joints r)"

definition same_object :: "Joint \<Rightarrow> Joint option \<Rightarrow> bool" where
  "same_object j h = (case h of None \<Rightarrow> False | Some k \<Rightarrow> joint_obj k = joint_obj j)"

definition pointerDown :: "AbstractMesh option \<Rightarrow> RobotScene \<Rightarrow> RobotScene" where
  "pointerDown pickedMesh s =
     (if scene s \<and> camera s \<noteq> None then
        let s1 = clearStatus s
        in (case pickedMesh of None \<Rightarrow> s1
            | Some m \<Rightarrow>
               (case currentRobot s1 of None \<Rightarrow> s1
                | Some r \<Rightarrow>
                   let found = findJoint m r;
                       s2 = s1\<lparr>effects := effects s1 @ map ConsoleLog (snd found)\<rparr>
                   in (case fst found of
                         Some foundJoint \<Rightarrow>
                           let s3 = emit (ConsoleLog (''Creating gizmo for joint: '' @ joint_name foundJoint)) s2
                           in if \<not> same_object foundJoint (hoveredJoint s3) then
                                let s4 = (clearJointExerciseGizmos s3)\<lparr>hoveredJoint := Some foundJoint\<rparr>;
                                    s5 = addExerciseGizmoToJoint foundJoint s4
                                in if transform foundJoint \<noteq> None
                                   then updateJointStatusLabel foundJoint s5 else s5
                              else s3
                       | None \<Rightarrow>
                           clearStatus (clearJointExerciseGizmos (s2\<lparr>hoveredJoint := None\<rparr>)))))
      else s)"

section \<open>Loading a URDF and aggregating mesh progress\<close>

definition isMeshVisual :: "Visual \<Rightarrow> bool" where
  "isMeshVisual v = (case geometry v of None \<Rightarrow> False | Some g \<Rightarrow> geom_class g = MeshGeometry)"

definition allVisuals :: "Robot \<Rightarrow> Visual list" where
  "allVisuals r = concat (map (\<lambda>e. visuals (snd e)) (links r))"

definition updateOverallProgress :: "RobotScene \<Rightarrow> RobotScene" where
  "updateOverallProgress s =
     (if \<not> onProgressCallback s \<or> totalMeshes s = 0 then s
      else
        let totalProgress = fold (\<lambda>e acc. acc + snd e) (meshLoadProgress s) 0;
            averageProgress = totalProgress / real_of_int (totalMeshes s)
        in emit (Progress (loadedMeshes s) (totalMeshes s) averageProgress) s)"

text \<open>The two callbacks that \<open>applyURDF\<close> registers on a mesh geometry, for the key \<open>meshId\<close>.\<close>

definition onMeshProgress :: "meshId \<Rightarrow> ProgressEvent \<Rightarrow> RobotScene \<Rightarrow> RobotScene" where
  "onMeshProgress k ev s =
     (let meshProgress = (if lengthComputable ev \<and> ev_total ev > 0
                          then ev_loaded ev / ev_total ev * 100 else 0)
      in updateOverallProgress
           (s\<lparr>meshLoadProgress := AList.update k meshProgress (meshLoadProgress s)\<rparr>))"

definition onMeshComplete :: "meshId \<Rightarrow> RobotScene \<Rightarrow> RobotScene" where
  "onMeshComplete k s =
     (let s1 = s\<lparr>pendingMeshLoads := pendingMeshLoads s - 1,
                 loadedMeshes := loadedMeshes s + 1,
                 meshLoadProgress := AList.update k 100 (meshLoadProgress s)\<rparr>;
          s2 = updateOverallProgress s1
      in if pendingMeshLoads s2 = 0 \<and> \<not> hasBeenFramed s2
         then setTimeout FrameThenMirror 100 s2 else s2)"

text \<open>First pass of \<open>applyURDF\<close>: count the mesh visuals.\<close>

fun firstPass :: "Visual list \<Rightarrow> RobotScene \<Rightarrow> RobotScene" where
  "firstPass [] s = s"
| "firstPass (v # vs) s =
     firstPass vs (if isMeshVisual v then s\<lparr>totalMeshes := totalMeshes s + 1\<rparr> else s)"

text \<open>Second pass: one pending load and one progress entry per mesh visual.\<close>

fun secondPass :: "Visual list \<Rightarrow> nat \<Rightarrow> RobotScene \<Rightarrow> RobotScene" where
  "secondPass [] meshIndex s = s"
| "secondPass (v # vs) meshIndex s =
     (if isMeshVisual v then
        secondPass vs (Suc meshIndex)
          (s\<lparr>pendingMeshLoads := pendingMeshLoads s + 1,
             meshLoadProgress := AList.update meshIndex 0 (meshLoadProgress s)\<rparr>)
      else secondPass vs meshIndex s)"

definition reportError :: "bool \<Rightarrow> string \<Rightarrow> RobotScene \<Rightarrow> RobotScene" where
  "reportError vscode msg s =
     (if \<not> vscode then emit (ConsoleError (''Error loading urdf: '' @ msg)) s
      else emit (PostMessage ''error'' msg) s)"

definition trace_message :: "bool \<Rightarrow> string \<Rightarrow> RobotScene \<Rightarrow> RobotScene" where
  "trace_message vscode txt s = (if vscode then emit (PostMessage ''trace'' txt) s else s)"

text \<open>
  \<open>applyURDF\<close> of the second listing. \<open>urdf.deserializeUrdfToRobot\<close> is not part of the
  listing and is a parameter: it returns the robot or the message of the error it throws.
  The method is asynchronous and has one \<open>await\<close>, on the deserializer, so a call runs in two
  parts. \<open>applyURDF_begin\<close> is what runs when the method is called, up to the \<open>await\<close>;
  without a scene nothing is awaited and the call ends there. \<open>applyURDF_resume\<close> is the
  continuation, given the outcome of the deserializer. Other calls, callbacks and timers can
  run between the two. \<open>applyURDF\<close> is a call whose continuation runs before anything else
  does. \<open>Robot.create\<close> and the progress callback are taken to return normally. The display
  lists cleared first (axis gizmos, rotation gizmos, grid labels) and \<open>meshLoadPromises\<close>
  play no part in what follows and are left out. The first listing has the same text without
  the statements on \<open>totalMeshes\<close>, \<open>loadedMeshes\<close>, \<open>meshLoadProgress\<close> and the callback.
\<close>

definition applyURDF_begin :: "string \<Rightarrow> bool \<Rightarrow> RobotScene \<Rightarrow> RobotScene" where
  "applyURDF_begin urdfText vscode s =
     (let s1 = clearStatus (clearJointExerciseGizmos s);
          s2 = (case currentRobot s1 of None \<Rightarrow> s1
                | Some tempR \<Rightarrow> emit (DisposeRobot tempR) (s1\<lparr>currentRobot := None\<rparr>));
          s3 = trace_message vscode ''loading urdf'' s2
      in if scene s3 then
           s3\<lparr>currentURDF := Some urdfText, pendingMeshLoads := 0,
              hasBeenFramed := False, totalMeshes := 0, loadedMeshes := 0,
              meshLoadProgress := []\<rparr>
         else trace_message vscode ''loaded urdf'' s3)"

definition applyURDF_resume :: "string + Robot \<Rightarrow> bool \<Rightarrow> RobotScene \<Rightarrow> RobotScene" where
  "applyURDF_resume outcome vscode s4 =
     (case outcome of
        Inl msg \<Rightarrow> reportError vscode msg s4
      | Inr r \<Rightarrow>
          let s5 = firstPass (allVisuals r) (s4\<lparr>currentRobot := Some r\<rparr>);
              s6 = (if onProgressCallback s5 \<and> totalMeshes s5 > 0
                    then emit (Progress 0 (totalMeshes s5) 0) s5 else s5);
              s7 = secondPass (allVisuals r) 0 s6;
              s8 = emit (CreateRobot r) s7;
              s9 = setTimeout MirrorOnly 50 s8;
              s10 = (if pendingMeshLoads s9 = 0 \<and> \<not> hasBeenFramed s9
                     then setTimeout FrameThenMirror 100 s9 else s9)
          in trace_message vscode ''loaded urdf'' s10)"

definition applyURDF ::
  "(string \<Rightarrow> string + Robot) \<Rightarrow> string \<Rightarrow> bool \<Rightarrow> RobotScene \<Rightarrow> RobotScene" where
  "applyURDF deserializeUrdfToRobot urdfText vscode s =
     (if scene s
      then applyURDF_resume (deserializeUrdfToRobot urdfText) vscode (applyURDF_begin urdfText vscode s)
      else applyURDF_begin urdfText vscode s)"

definition setLoadProgressCallback :: "RobotScene \<Rightarrow> RobotScene" where
  "setLoadProgressCallback s = s\<lparr>onProgressCallback := True\<rparr>"

section \<open>Camera framing\<close>

definition defaultAlpha :: "Listing \<Rightarrow> real" where
  "defaultAlpha l = (case l of FirstListing \<Rightarrow> - pi / 3 | SecondListing \<Rightarrow> 2 * pi / 3)"

definition MAX_VALUE :: real where
  "MAX_VALUE = (2 ^ 53 - 1) * 2 ^ 971"

definition Minimize :: "Vector3 \<Rightarrow> Vector3 \<Rightarrow> Vector3" where
  "Minimize a b = Vector3 (min (vec_x a) (vec_x b)) (min (vec_y a) (vec_y b)) (min (vec_z a) (vec_z b))"

definition Maximize :: "Vector3 \<Rightarrow> Vector3 \<Rightarrow> Vector3" where
  "Maximize a b = Vector3 (max (vec_x a) (vec_x b)) (max (vec_y a) (vec_y b)) (max (vec_z a) (vec_z b))"

definition Center :: "Vector3 \<Rightarrow> Vector3 \<Rightarrow> Vector3" where
  "Center a b = Vector3 ((vec_x a + vec_x b) / 2) ((vec_y a + vec_y b) / 2) ((vec_z a + vec_z b) / 2)"

definition subtract :: "Vector3 \<Rightarrow> Vector3 \<Rightarrow> Vector3" where
  "subtract a b = Vector3 (vec_x a - vec_x b) (vec_y a - vec_y b) (vec_z a - vec_z b)"

definition robotMeshesOf :: "Robot \<Rightarrow> AbstractMesh list" where
  "robotMeshesOf r =
     concat (map (\<lambda>v. case geometry v of None \<Rightarrow> []
                       | Some g \<Rightarrow> (case meshes g of None \<Rightarrow> [] | Some ms \<Rightarrow> ms))
                 (allVisuals r))"

text \<open>
  \<open>ArcRotateCamera\<close> is a class of Babylon.js and not part of the listing. Assigning
  \<open>alpha\<close>, \<open>beta\<close> or \<open>radius\<close> stores the value. Assigning \<open>target\<close> calls \<open>setTarget\<close>,
  which does nothing when the target is the one the camera has, and otherwise stores it and
  rebuilds alpha, beta and radius from the position (\<open>rebuildAnglesAndRadius\<close>). The
  position is computed from the four properties when the view matrix is built
  (\<open>getViewMatrix\<close>): by the constructor, and then by the render loop, which is not part of
  the model. The scene does not change the camera's up vector (Y) or its limits (beta between
  0.01 and pi - 0.01, none on alpha and radius).
\<close>

definition getViewMatrix :: "ArcRotateCamera \<Rightarrow> ArcRotateCamera" where
  "getViewMatrix c =
     (let cosa = cos (cam_alpha c); sina = sin (cam_alpha c); cosb = cos (cam_beta c);
          sinb = (if sin (cam_beta c) = 0 then 0.0001 else sin (cam_beta c));
          t = cam_target c
      in c\<lparr>cam_position := Vector3 (vec_x t + cam_radius c * cosa * sinb)
                                   (vec_y t + cam_radius c * cosb)
                                   (vec_z t + cam_radius c * sina * sinb)\<rparr>)"

definition newArcRotateCamera :: "real \<Rightarrow> real \<Rightarrow> real \<Rightarrow> Vector3 \<Rightarrow> ArcRotateCamera" where
  "newArcRotateCamera alpha beta radius target =
     getViewMatrix \<lparr>cam_alpha = alpha, cam_beta = beta, cam_radius = radius, cam_target = target,
                    cam_position = Vector3 0 0 0\<rparr>"

definition checkLimits :: "ArcRotateCamera \<Rightarrow> ArcRotateCamera" where
  "checkLimits c =
     (let c1 = (if cam_beta c < 0.01 then c\<lparr>cam_beta := 0.01\<rparr> else c)
      in if cam_beta c1 > pi - 0.01 then c1\<lparr>cam_beta := pi - 0.01\<rparr> else c1)"

definition rebuildAnglesAndRadius :: "ArcRotateCamera \<Rightarrow> ArcRotateCamera" where
  "rebuildAnglesAndRadius c =
     (let v = subtract (cam_position c) (cam_target c);
          len = sqrt ((vec_x v) ^ 2 + (vec_y v) ^ 2 + (vec_z v) ^ 2);
          radius = (if len = 0 then 0.0001 else len);
          previousAlpha = cam_alpha c;
          a0 = (if vec_x v = 0 \<and> vec_z v = 0 then pi / 2
                else arccos (vec_x v / sqrt ((vec_x v) ^ 2 + (vec_z v) ^ 2)));
          a1 = (if vec_z v < 0 then 2 * pi - a0 else a0);
          alphaCorrectionTurns = round ((previousAlpha - a1) / (2 * pi));
          alpha = a1 + of_int alphaCorrectionTurns * 2 * pi;
          beta = arccos (vec_y v / radius)
      in checkLimits (c\<lparr>cam_radius := radius, cam_alpha := alpha, cam_beta := beta\<rparr>))"

definition setTarget :: "Vector3 \<Rightarrow> ArcRotateCamera \<Rightarrow> ArcRotateCamera" where
  "setTarget target c =
     (if cam_target c = target then c else rebuildAnglesAndRadius (c\<lparr>cam_target := target\<rparr>))"

definition frameModel :: "Listing \<Rightarrow> RobotScene \<Rightarrow> RobotScene" where
  "frameModel l s =
     (if \<not> scene s then s
      else (case camera s of None \<Rightarrow> s
            | Some cam \<Rightarrow>
               (case currentRobot s of None \<Rightarrow> s
                | Some r \<Rightarrow>
                   let robotMeshes = robotMeshesOf r
                   in if length robotMeshes = 0 then s
                      else
                        let mn = fold (\<lambda>m acc. Minimize acc (minimumWorld m)) robotMeshes
                                   (Vector3 MAX_VALUE MAX_VALUE MAX_VALUE);
                            mx = fold (\<lambda>m acc. Maximize acc (maximumWorld m)) robotMeshes
                                   (Vector3 (- MAX_VALUE) (- MAX_VALUE) (- MAX_VALUE));
                            center = Center mn mx;
                            size = subtract mx mn;
                            maxDimension = max (max (vec_x size) (vec_y size)) (vec_z size);
                            distance = maxDimension * 1.5;
                            cam1 = (setTarget center cam)
                                     \<lparr>cam_radius := max distance 1,
                                      cam_alpha := defaultAlpha l, cam_beta := 5 * pi / 12\<rparr>
                        in s\<lparr>camera := Some cam1,
                             savedFramingTarget := center,
                             savedFramingRadius := cam_radius cam1,
                             savedFramingAlpha := cam_alpha cam1,
                             savedFramingBeta := cam_beta cam1,
                             hasBeenFramed := True\<rparr>)))"

definition resetCamera :: "Listing \<Rightarrow> RobotScene \<Rightarrow> RobotScene" where
  "resetCamera l s =
     (case camera s of None \<Rightarrow> s
      | Some cam \<Rightarrow>
          if hasBeenFramed s then
            s\<lparr>camera := Some ((setTarget (savedFramingTarget s) cam)
                                 \<lparr>cam_radius := savedFramingRadius s,
                                  cam_alpha := savedFramingAlpha s,
                                  cam_beta := savedFramingBeta s\<rparr>)\<rparr>
          else
            s\<lparr>camera := Some ((setTarget (Vector3 0 0 0)
                                   (cam\<lparr>cam_alpha := defaultAlpha l, cam_beta := 5 * pi / 12\<rparr>))
                                 \<lparr>cam_radius := 1\<rparr>)\<rparr>)"

section \<open>The controller as a state machine\<close>

text \<open>The field initialisers of the class, and what \<open>createScene\<close> sets of the fields above.\<close>

definition newRobotScene :: "Listing \<Rightarrow> RobotScene" where
  "newRobotScene l =
     \<lparr>scene = False, camera = None, currentURDF = None, currentRobot = None,
      statusText = (case l of FirstListing \<Rightarrow> None | SecondListing \<Rightarrow> Some EmptyText),
      hoveredJoint = None, planeRotationGizmo = None, planePositionGizmo = None,
      hasBeenFramed = False, pendingMeshLoads = 0,
      savedFramingTarget = Vector3 0 0 0, savedFramingRadius = 1,
      savedFramingAlpha = defaultAlpha l, savedFramingBeta = 5 * pi / 12,
      totalMeshes = 0, loadedMeshes = 0, meshLoadProgress = [], onProgressCallback = False,
      liveGizmos = [], timers = [], effects = []\<rparr>"

definition createScene :: "Listing \<Rightarrow> RobotScene \<Rightarrow> RobotScene" where
  "createScene l s =
     s\<lparr>scene := True,
       camera := Some (newArcRotateCamera (defaultAlpha l) (5 * pi / 12) 1 (Vector3 0 0 0))\<rparr>"

definition runTask :: "Listing \<Rightarrow> Task \<Rightarrow> RobotScene \<Rightarrow> RobotScene" where
  "runTask l t s =
     (case t of FrameThenMirror \<Rightarrow> emit UpdateMirrorReflections (frameModel l s)
      | MirrorOnly \<Rightarrow> emit UpdateMirrorReflections s)"

text \<open>A pending timer fires: the task leaves the queue and runs.\<close>

definition fireTimer :: "Listing \<Rightarrow> nat \<Rightarrow> RobotScene \<Rightarrow> RobotScene" where
  "fireTimer l i s =
     (if i < length (timers s)
      then runTask l (timers s ! i) (s\<lparr>timers := take i (timers s) @ drop (Suc i) (timers s)\<rparr>)
      else s)"

text \<open>
  What happens to the controller. \<open>ApplyURDF\<close> is a call of \<open>applyURDF\<close> whose
  deserialization completes before the next event.
\<close>

datatype Event =
    ApplyURDF string bool
  | MeshProgress meshId ProgressEvent
  | MeshComplete meshId
  | PointerDown "AbstractMesh option"
  | FireTimer nat
  | ResetCamera
  | SetLoadProgressCallback

fun step :: "Listing \<Rightarrow> (string \<Rightarrow> string + Robot) \<Rightarrow> Event \<Rightarrow> RobotScene \<Rightarrow> RobotScene" where
  "step l d (ApplyURDF txt vscode) s = applyURDF d txt vscode s"
| "step l d (MeshProgress k ev) s = onMeshProgress k ev s"
| "step l d (MeshComplete k) s = onMeshComplete k s"
| "step l d (PointerDown m) s = pointerDown m s"
| "step l d (FireTimer i) s = fireTimer l i s"
| "step l d ResetCamera s = resetCamera l s"
| "step l d SetLoadProgressCallback s = setLoadProgressCallback s"

definition run :: "Listing \<Rightarrow> (string \<Rightarrow> string + Robot) \<Rightarrow> Event list \<Rightarrow> RobotScene \<Rightarrow> RobotScene" where
  "run l d evs s = foldl (\<lambda>st e. step l d e st) s evs"

section \<open>Sample inputs\<close>

definition demo_joint :: "nat \<Rightarrow> JointType \<Rightarrow> Vector3 \<Rightarrow> Joint" where
  "demo_joint i ty ax = \<lparr>joint_obj = i, joint_name = ''j'', joint_type = ty, axis = ax,
                          transform = Some i, child = None\<rparr>"

definition demo_scene :: "Listing \<Rightarrow> RobotScene" where
  "demo_scene l = createScene l (newRobotScene l)"

definition sample_mesh :: "nat \<Rightarrow> TransformNode option \<Rightarrow> AbstractMesh" where
  "sample_mesh i p = \<lparr>mesh_obj = i, mesh_parent = p,
                       minimumWorld = Vector3 0 0 0, maximumWorld = Vector3 1 1 1\<rparr>"

definition box_visual :: "nat \<Rightarrow> Visual" where
  "box_visual i = \<lparr>geometry = Some \<lparr>geom_class = BoxGeometry,
                                      meshes = Some [sample_mesh i None]\<rparr>\<rparr>"

definition mesh_visual :: Visual where
  "mesh_visual = \<lparr>geometry = Some \<lparr>geom_class = MeshGeometry, meshes = None\<rparr>\<rparr>"

definition demo_robot :: "Visual list \<Rightarrow> (string \<times> Joint) list \<Rightarrow> Robot" where
  "demo_robot vs js =
     \<lparr>links = [(''base_link'', \<lparr>link_name = ''base_link'', visuals = vs\<rparr>)], joints = js\<rparr>"

definition primitive_robot :: Robot where
  "primitive_robot = demo_robot [box_visual 10] []"

definition mixed_robot :: Robot where
  "mixed_robot = demo_robot [box_visual 20, mesh_visual] []"

definition two_mesh_robot :: Robot where
  "two_mesh_robot = demo_robot [mesh_visual, box_visual 30, mesh_visual] []"

text \<open>A base link and an arm link joined by one joint of a given type.\<close>

definition arm_link :: Link where
  "arm_link = \<lparr>link_name = ''arm'', visuals = [box_visual 40]\<rparr>"

definition arm_joint :: "JointType \<Rightarrow> Joint" where
  "arm_joint ty = \<lparr>joint_obj = 7, joint_name = ''shoulder'', joint_type = ty,
                    axis = Vector3 0 0 1, transform = Some 7, child = Some arm_link\<rparr>"

definition arm_robot :: "JointType \<Rightarrow> Robot" where
  "arm_robot ty =
     \<lparr>links = [(''base_link'', \<lparr>link_name = ''base_link'', visuals = [box_visual 10]\<rparr>),
               (''arm'', arm_link)],
      joints = [(''shoulder'', arm_joint ty)]\<rparr>"

text \<open>A deserializer for three URDF texts; every other text has no links and is rejected.\<close>

definition demo_deserialize :: "string \<Rightarrow> string + Robot" where
  "demo_deserialize t =
     (if t = ''primitive.urdf'' then Inr primitive_robot
      else if t = ''mixed.urdf'' then Inr mixed_robot
      else if t = ''two_mesh.urdf'' then Inr two_mesh_robot
      else Inl ''URDF has no links'')"

definition arm_scene :: "Listing \<Rightarrow> JointType \<Rightarrow> RobotScene" where
  "arm_scene l ty = (demo_scene l)\<lparr>currentRobot := Some (arm_robot ty)\<rparr>"

definition loaded_scene :: "Listing \<Rightarrow> RobotScene" where
  "loaded_scene l = applyURDF demo_deserialize ''primitive.urdf'' False (demo_scene l)"

section \<open>Notions used in the statements\<close>

text \<open>The manipulation state is Idle when no exercise manipulator is attached.\<close>

definition manipulation_idle :: "RobotScene \<Rightarrow> bool" where
  "manipulation_idle s = (planeRotationGizmo s = None \<and> planePositionGizmo s = None)"

text \<open>The number of mesh-geometry visuals of a robot, and the progress reports in a log.\<close>

definition meshCount :: "Robot \<Rightarrow> nat" where
  "meshCount r = length (filter isMeshVisual (allVisuals r))"

fun emissions :: "Effect list \<Rightarrow> (int \<times> int \<times> real) list" where
  "emissions [] = []"
| "emissions (Progress a b c # es) = (a, b, c) # emissions es"
| "emissions (e # es) = emissions es"

text \<open>How often a log asks for deferred framing.\<close>

definition framings :: "Effect list \<Rightarrow> nat" where
  "framings es = length (filter (\<lambda>e. e = SetTimeout FrameThenMirror 100) es)"

text \<open>The effects of a successful \<open>applyURDF\<close> on a scene, in order.\<close>

definition load_effects :: "bool \<Rightarrow> RobotScene \<Rightarrow> Robot \<Rightarrow> Effect list" where
  "load_effects v s r =
     (case currentRobot s of None \<Rightarrow> [] | Some R \<Rightarrow> [DisposeRobot R])
     @ (if v then [PostMessage ''trace'' ''loading urdf''] else [])
     @ (if onProgressCallback s \<and> 0 < meshCount r then [Progress 0 (int (meshCount r)) 0] else [])
     @ [CreateRobot r, SetTimeout MirrorOnly 50]
     @ (if meshCount r = 0 then [SetTimeout FrameThenMirror 100] else [])
     @ (if v then [PostMessage ''trace'' ''loaded urdf''] else [])"

text \<open>
  What holds of the search accumulator throughout: nothing found and nothing logged, or a
  joint of the robot that is not fixed and has a transform.
\<close>

definition found_ok :: "Joint set \<Rightarrow> Joint option \<times> string list \<Rightarrow> bool" where
  "found_ok J acc =
     (case fst acc of None \<Rightarrow> snd acc = []
      | Some j \<Rightarrow> joint_type j \<noteq> Fixed \<and> transform j \<noteq> None \<and> j \<in> J)"

text \<open>
  Two projections of the state: the fields the loader and the camera work with, and the fields
  of the joint selection. A log without its console lines.
\<close>

definition loader_view ::
  "RobotScene \<Rightarrow> bool \<times> ArcRotateCamera option \<times> Robot option \<times> bool \<times> int \<times> int \<times> int
      \<times> (meshId \<times> real) list \<times> bool \<times> Task list" where
  "loader_view s =
     (scene s, camera s, currentRobot s, hasBeenFramed s, pendingMeshLoads s, totalMeshes s,
      loadedMeshes s, meshLoadProgress s, onProgressCallback s, timers s)"

definition gizmo_view ::
  "RobotScene \<Rightarrow> JointRotationGizmo option \<times> JointPositionGizmo option \<times> ExerciseGizmo list
      \<times> Joint option" where
  "gizmo_view s = (planeRotationGizmo s, planePositionGizmo s, liveGizmos s, hoveredJoint s)"

fun is_console :: "Effect \<Rightarrow> bool" where
  "is_console (ConsoleLog x) = True"
| "is_console e = False"

definition non_console :: "Effect list \<Rightarrow> Effect list" where
  "non_console es = filter (\<lambda>e. \<not> is_console e) es"

text \<open>
  A load that settles, as a list of mesh events for \<open>n\<close> meshes: every event is a progress
  or completion event of one of the meshes, no event of a mesh follows its completion, and in
  the end every mesh has completed. \<open>finished\<close> holds the meshes completed so far.
\<close>

fun load_trace :: "nat \<Rightarrow> meshId list \<Rightarrow> Event list \<Rightarrow> bool" where
  "load_trace n finished [] = list_all (\<lambda>k. k \<in> set finished) [0 ..< n]"
| "load_trace n finished (MeshProgress k ev # es) =
     (k < n \<and> k \<notin> set finished \<and> load_trace n finished es)"
| "load_trace n finished (MeshComplete k # es) =
     (k < n \<and> k \<notin> set finished \<and> load_trace n (k # finished) es)"
| "load_trace n finished (e # es) = False"

text \<open>
  The state of the aggregator while \<open>n\<close> meshes load and those in \<open>finished\<close> have completed:
  the last report agrees with the counters and the progress table.
\<close>

definition load_inv :: "nat \<Rightarrow> meshId list \<Rightarrow> RobotScene \<Rightarrow> bool" where
  "load_inv n finished st =
     (totalMeshes st = int n \<and> onProgressCallback st
      \<and> loadedMeshes st = int (length finished) \<and> distinct finished \<and> set finished \<subseteq> {..<n}
      \<and> map fst (meshLoadProgress st) = [0 ..< n]
      \<and> (\<forall>k \<in> set finished. map_of (meshLoadProgress st) k = Some 100)
      \<and> emissions (effects st) \<noteq> []
      \<and> last (emissions (effects st)) =
          (loadedMeshes st, int n, sum_list (map snd (meshLoadProgress st)) / real n))"

text \<open>Counting the completion events of a trace, and the loads in it.\<close>

fun is_complete :: "Event \<Rightarrow> bool" where
  "is_complete (MeshComplete k) = True"
| "is_complete e = False"

fun is_apply :: "Event \<Rightarrow> bool" where
  "is_apply (ApplyURDF u v) = True"
| "is_apply e = False"

definition completions :: "Event list \<Rightarrow> nat" where
  "completions evs = length (filter is_complete evs)"



text \<open>A reload while two meshes of the previous robot are still loading.\<close>

definition reloaded_scene :: RobotScene where
  "reloaded_scene =
     run SecondListing demo_deserialize
       [ApplyURDF ''two_mesh.urdf'' False, ApplyURDF ''mixed.urdf'' False]
       (demo_scene SecondListing)"

text \<open>
  Two calls that overlap: the second is made while the first is suspended in its
  deserialization, and the two continuations then run in the order of the calls.
\<close>

definition overlapped_scene :: RobotScene where
  "overlapped_scene =
     applyURDF_resume (demo_deserialize ''mixed.urdf'') False
       (applyURDF_resume (demo_deserialize ''two_mesh.urdf'') False
          (applyURDF_begin ''mixed.urdf'' False
             (applyURDF_begin ''two_mesh.urdf'' False (demo_scene SecondListing))))"



text \<open>The joint types that get a manipulator.\<close>

definition movable :: "Joint \<Rightarrow> bool" where
  "movable j =
     (joint_type j = Revolute \<or> joint_type j = Continuous \<or> joint_type j = Prismatic)"

text \<open>
  The exercise gizmos that exist are the ones the two fields refer to, and the fields are
  never both set.
\<close>

definition gizmo_inv :: "RobotScene \<Rightarrow> bool" where
  "gizmo_inv s =
     (liveGizmos s =
        (case planeRotationGizmo s of None \<Rightarrow> [] | Some g \<Rightarrow> [RotationGizmo g])
        @ (case planePositionGizmo s of None \<Rightarrow> [] | Some g \<Rightarrow> [PositionGizmo g])
      \<and> (planeRotationGizmo s = None \<or> planePositionGizmo s = None))"

definition joint_objects :: "Robot \<Rightarrow> nat list" where
  "joint_objects r = map (\<lambda>e. joint_obj (snd e)) (joints r)"

text \<open>
  If the hovered joint is an object of the current robot, it is one of its joints, it has a
  transform, and a manipulator is attached exactly if its type is movable.
\<close>

definition sel_inv :: "RobotScene \<Rightarrow> bool" where
  "sel_inv s =
     (\<forall>h r. hoveredJoint s = Some h \<and> currentRobot s = Some r
            \<and> joint_obj h \<in> set (joint_objects r) \<longrightarrow>
        h \<in> snd ` set (joints r) \<and> transform h \<noteq> None
        \<and> (manipulation_idle s \<longleftrightarrow> \<not> movable h))"

definition scene_inv :: "RobotScene \<Rightarrow> bool" where
  "scene_inv s =
     (scene s \<and> camera s \<noteq> None \<and> gizmo_inv s \<and> sel_inv s
      \<and> (\<forall>r. currentRobot s = Some r \<longrightarrow> distinct (joint_objects r)))"

text \<open>
  What the environment guarantees of a deserialized robot: its joints are distinct objects,
  and they are new, so none of them is the joint the scene still holds as hovered.
\<close>

definition fresh_robot :: "RobotScene \<Rightarrow> Robot \<Rightarrow> bool" where
  "fresh_robot s r =
     (distinct (joint_objects r)
      \<and> (\<forall>h. hoveredJoint s = Some h \<longrightarrow> joint_obj h \<notin> set (joint_objects r)))"

text \<open>The states of a controller after \<open>createScene\<close>, under any events.\<close>

inductive reachable :: "Listing \<Rightarrow> RobotScene \<Rightarrow> bool" for l :: Listing where
  created: "reachable l (createScene l (newRobotScene l))"
| loaded: "reachable l s \<Longrightarrow> (\<forall>r. d u = Inr r \<longrightarrow> fresh_robot s r)
             \<Longrightarrow> reachable l (applyURDF d u v s)"
| event: "reachable l s \<Longrightarrow> \<not> is_apply e \<Longrightarrow> reachable l (step l d e s)"

text \<open>A scene with a one-joint robot, loaded from a text.\<close>

definition arm_deserialize :: "JointType \<Rightarrow> string \<Rightarrow> string + Robot" where
  "arm_deserialize ty t = Inr (arm_robot ty)"

definition arm_loaded :: "Listing \<Rightarrow> JointType \<Rightarrow> RobotScene" where
  "arm_loaded l ty = applyURDF (arm_deserialize ty) ''arm.urdf'' False (demo_scene l)"

section \<open>The transform tree of a built robot\<close>

text \<open>
  Modelled from the spec: the kinematic tree builder (\<open>urdf.ts\<close> and \<open>Robot.create\<close>), which
  is not among the sources; only \<open>docs/api/robot.md\<close> describes it. The model follows
  section 4.2, steps 4 and 5, and the invariants of section 3: a link never named as a child
  by a joint is an orphan; a synthetic root transform is created; each orphan link's transform
  is parented to the root; for every joint, the joint's transform is parented to the parent
  link's transform and the child link's transform to the joint's transform; when the named
  parent does not exist, the joint's child is treated as an orphan and parented to the root.
  The input is the link table (its keys) and the joint table, as parsed.
\<close>

datatype TransformRef = RootTransform | LinkTransform string | JointTransform string

record UrdfJoint =
  parentName :: string
  childName :: string

record BuiltRobot =
  built_links :: "string list"
  built_joints :: "(string \<times> UrdfJoint) list"
  transforms :: "TransformRef list"
  parentOf :: "TransformRef \<Rightarrow> TransformRef option"

definition isOrphan :: "(string \<times> UrdfJoint) list \<Rightarrow> string \<Rightarrow> bool" where
  "isOrphan js l = list_all (\<lambda>e. childName (snd e) \<noteq> l) js"

definition parentOrphans ::
  "(string \<times> UrdfJoint) list \<Rightarrow> string list \<Rightarrow> (TransformRef \<Rightarrow> TransformRef option)
     \<Rightarrow> (TransformRef \<Rightarrow> TransformRef option)" where
  "parentOrphans js ls p =
     fold (\<lambda>l q. if isOrphan js l then q(LinkTransform l \<mapsto> RootTransform) else q) ls p"

definition wireJoint ::
  "string list \<Rightarrow> string \<times> UrdfJoint \<Rightarrow> (TransformRef \<Rightarrow> TransformRef option)
     \<Rightarrow> (TransformRef \<Rightarrow> TransformRef option)" where
  "wireJoint ls e p =
     (let n = fst e; j = snd e
      in if parentName j \<in> set ls then
           (let q = p(JointTransform n \<mapsto> LinkTransform (parentName j))
            in if childName j \<in> set ls then q(LinkTransform (childName j) \<mapsto> JointTransform n)
               else q)
         else if childName j \<in> set ls then p(LinkTransform (childName j) \<mapsto> RootTransform)
         else p)"

definition buildTree :: "string list \<Rightarrow> (string \<times> UrdfJoint) list \<Rightarrow> BuiltRobot" where
  "buildTree ls js =
     \<lparr>built_links = ls, built_joints = js,
      transforms = RootTransform # map LinkTransform ls @ map (\<lambda>e. JointTransform (fst e)) js,
      parentOf = fold (wireJoint ls) js (parentOrphans js ls (\<lambda>t. None))\<rparr>"

section \<open>Facts about the model\<close>

subsection \<open>The two gizmo cases\<close>

lemma rotation_case_fields:
  "planeRotationGizmo (rotation_case joint s) =
     Some \<lparr>rot_joint = joint,
           rot_color = (if \<bar>vec_y (axis joint)\<bar> > 0.5 then Green
                        else if \<bar>vec_z (axis joint)\<bar> > 0.5 then Blue else Red),
           rot_scaleRatio = 0.75, rot_attachedNode = transform joint,
           enableLimits = (joint_type joint \<noteq> Continuous)\<rparr>"
  "planePositionGizmo (rotation_case joint s) = planePositionGizmo s"
  by (simp_all add: rotation_case_def new_rotation_gizmo_def emit_def Let_def)

lemma position_case_fields:
  "planePositionGizmo (position_case joint s) =
     Some \<lparr>pos_joint = joint,
           pos_color = (if \<bar>vec_y (axis joint)\<bar> > 0.5 then Blue
                        else if \<bar>vec_z (axis joint)\<bar> > 0.5 then Red else Green),
           pos_scaleRatio = 0.75, pos_attachedNode = transform joint\<rparr>"
  "planeRotationGizmo (position_case joint s) = planeRotationGizmo s"
  by (simp_all add: position_case_def new_position_gizmo_def Let_def)

subsection \<open>A successful load\<close>

text \<open>
  The two passes over the visuals in closed form, and the state after a load that succeeds.
\<close>

lemma firstPass_eq:
  "firstPass vs s = s\<lparr>totalMeshes := totalMeshes s + int (length (filter isMeshVisual vs))\<rparr>"
  by (induction vs arbitrary: s) simp_all

lemma update_fresh_append:
  "k \<notin> fst ` set al \<Longrightarrow> AList.update k v al = al @ [(k, v)]"
  by (induction al) auto

lemma secondPass_eq:
  "map fst (meshLoadProgress s) = [0 ..< i] \<Longrightarrow>
   secondPass vs i s =
     s\<lparr>pendingMeshLoads := pendingMeshLoads s + int (length (filter isMeshVisual vs)),
       meshLoadProgress := meshLoadProgress s
          @ map (\<lambda>k. (k, 0)) [i ..< i + length (filter isMeshVisual vs)]\<rparr>"
proof (induction vs arbitrary: s i)
  case Nil
  then show ?case by simp
next
  case (Cons v vs)
  show ?case
  proof (cases "isMeshVisual v")
    case True
    let ?n = "length (filter isMeshVisual vs)"
    let ?s' = "s\<lparr>pendingMeshLoads := pendingMeshLoads s + 1,
                  meshLoadProgress := AList.update i 0 (meshLoadProgress s)\<rparr>"
    have "i \<notin> fst ` set (meshLoadProgress s)"
    proof -
      have "fst ` set (meshLoadProgress s) = set (map fst (meshLoadProgress s))" by simp
      also have "\<dots> = {0 ..< i}" using Cons.prems by simp
      finally show ?thesis by simp
    qed
    then have upd: "AList.update i 0 (meshLoadProgress s) = meshLoadProgress s @ [(i, 0)]"
      by (rule update_fresh_append)
    have keys: "map fst (meshLoadProgress ?s') = [0 ..< Suc i]"
      using Cons.prems by (simp add: upd)
    have range: "[i ..< i + Suc ?n] = i # [Suc i ..< Suc i + ?n]"
    proof -
      have e: "i + Suc ?n = Suc i + ?n" by simp
      show ?thesis unfolding e by (rule upt_conv_Cons) simp
    qed
    have "secondPass (v # vs) i s = secondPass vs (Suc i) ?s'"
      using True by simp
    also have "\<dots> = ?s'\<lparr>pendingMeshLoads := pendingMeshLoads ?s' + int ?n,
        meshLoadProgress := meshLoadProgress ?s' @ map (\<lambda>k. (k, 0)) [Suc i ..< Suc i + ?n]\<rparr>"
      by (rule Cons.IH [OF keys])
    also have "\<dots> = s\<lparr>pendingMeshLoads := pendingMeshLoads s + int (Suc ?n),
        meshLoadProgress := meshLoadProgress s @ map (\<lambda>k. (k, 0)) [i ..< i + Suc ?n]\<rparr>"
      unfolding range by (simp add: upd)
    finally show ?thesis using True by simp
  next
    case False
    then show ?thesis using Cons.IH [OF Cons.prems] by simp
  qed
qed


lemma clear_fields [simp]:
  "onProgressCallback (clearStatus s) = onProgressCallback s"
  "onProgressCallback (clearJointExerciseGizmos s) = onProgressCallback s"
  "timers (clearStatus s) = timers s"
  "timers (clearJointExerciseGizmos s) = timers s"
  "currentRobot (clearStatus s) = currentRobot s"
  "currentRobot (clearJointExerciseGizmos s) = currentRobot s"
  "scene (clearStatus s) = scene s"
  "scene (clearJointExerciseGizmos s) = scene s"
  "effects (clearStatus s) = effects s"
  "effects (clearJointExerciseGizmos s) = effects s"
  by (simp_all add: clearStatus_def clearJointExerciseGizmos_def dispose_rot_def dispose_pos_def
      Let_def split: option.splits)

lemma applyURDF_unfold:
  "applyURDF deserializeUrdfToRobot urdfText vscode s =
     (let s1 = clearStatus (clearJointExerciseGizmos s);
          s2 = (case currentRobot s1 of None \<Rightarrow> s1
                | Some tempR \<Rightarrow> emit (DisposeRobot tempR) (s1\<lparr>currentRobot := None\<rparr>));
          s3 = trace_message vscode ''loading urdf'' s2
      in if scene s3 then
           let s4 = s3\<lparr>currentURDF := Some urdfText, pendingMeshLoads := 0,
                       hasBeenFramed := False, totalMeshes := 0, loadedMeshes := 0,
                       meshLoadProgress := []\<rparr>
           in (case deserializeUrdfToRobot urdfText of
                 Inl msg \<Rightarrow> reportError vscode msg s4
               | Inr r \<Rightarrow>
                   let s5 = firstPass (allVisuals r) (s4\<lparr>currentRobot := Some r\<rparr>);
                       s6 = (if onProgressCallback s5 \<and> totalMeshes s5 > 0
                             then emit (Progress 0 (totalMeshes s5) 0) s5 else s5);
                       s7 = secondPass (allVisuals r) 0 s6;
                       s8 = emit (CreateRobot r) s7;
                       s9 = setTimeout MirrorOnly 50 s8;
                       s10 = (if pendingMeshLoads s9 = 0 \<and> \<not> hasBeenFramed s9
                              then setTimeout FrameThenMirror 100 s9 else s9)
                   in trace_message vscode ''loaded urdf'' s10)
         else trace_message vscode ''loaded urdf'' s3)"
proof -
  have sc: "scene (trace_message vscode ''loading urdf''
              (case currentRobot (clearStatus (clearJointExerciseGizmos s)) of
                 None \<Rightarrow> clearStatus (clearJointExerciseGizmos s)
               | Some tempR \<Rightarrow> emit (DisposeRobot tempR)
                   ((clearStatus (clearJointExerciseGizmos s))\<lparr>currentRobot := None\<rparr>))) = scene s"
    by (simp add: trace_message_def emit_def split: option.splits)
  show ?thesis
    unfolding applyURDF_def applyURDF_begin_def applyURDF_resume_def Let_def sc
    by (simp split: sum.splits)
qed

lemma applyURDF_success:
  assumes "scene s" and "d txt = Inr r"
  shows "applyURDF d txt v s =
     (clearStatus (clearJointExerciseGizmos s))
       \<lparr>currentURDF := Some txt, currentRobot := Some r, hasBeenFramed := False,
        pendingMeshLoads := int (meshCount r), totalMeshes := int (meshCount r),
        loadedMeshes := 0, meshLoadProgress := map (\<lambda>k. (k, 0)) [0 ..< meshCount r],
        timers := timers s @ MirrorOnly # (if meshCount r = 0 then [FrameThenMirror] else []),
        effects := effects s @ load_effects v s r\<rparr>"
proof -
  define c where "c = clearStatus (clearJointExerciseGizmos s)"
  define n where "n = meshCount r"
  define e1 where "e1 = (case currentRobot s of None \<Rightarrow> [] | Some R \<Rightarrow> [DisposeRobot R])
     @ (if v then [PostMessage ''trace'' ''loading urdf''] else [])"
  define e2 where "e2 = e1 @ (if onProgressCallback s \<and> 0 < n then [Progress 0 (int n) 0] else [])"
  have cf: "currentRobot c = currentRobot s" "effects c = effects s" "scene c"
    "onProgressCallback c = onProgressCallback s" "timers c = timers s"
    using assms(1) by (simp_all add: c_def)
  define s3 where "s3 = trace_message v ''loading urdf''
      (case currentRobot c of None \<Rightarrow> c
       | Some tempR \<Rightarrow> emit (DisposeRobot tempR) (c\<lparr>currentRobot := None\<rparr>))"
  have s3: "s3 = c\<lparr>currentRobot := None, effects := effects s @ e1\<rparr>"
    by (cases "currentRobot s"; cases v)
       (simp_all add: s3_def cf trace_message_def emit_def e1_def)
  define s5 where "s5 = firstPass (allVisuals r)
      (s3\<lparr>currentURDF := Some txt, pendingMeshLoads := 0, hasBeenFramed := False,
           totalMeshes := 0, loadedMeshes := 0, meshLoadProgress := [],
           currentRobot := Some r\<rparr>)"
  have s5: "s5 = c\<lparr>currentURDF := Some txt, currentRobot := Some r, hasBeenFramed := False,
        pendingMeshLoads := 0, totalMeshes := int n, loadedMeshes := 0, meshLoadProgress := [],
        effects := effects s @ e1\<rparr>"
    by (simp add: s5_def s3 firstPass_eq n_def meshCount_def)
  define s6 where "s6 = (if onProgressCallback s5 \<and> totalMeshes s5 > 0
                         then emit (Progress 0 (totalMeshes s5) 0) s5 else s5)"
  have s6: "s6 = c\<lparr>currentURDF := Some txt, currentRobot := Some r, hasBeenFramed := False,
        pendingMeshLoads := 0, totalMeshes := int n, loadedMeshes := 0, meshLoadProgress := [],
        effects := effects s @ e2\<rparr>"
    by (simp add: s6_def s5 cf emit_def e2_def)
  define s7 where "s7 = secondPass (allVisuals r) 0 s6"
  have "map fst (meshLoadProgress s6) = [0 ..< 0]" by (simp add: s6)
  from secondPass_eq [OF this, of "allVisuals r"]
  have s7: "s7 = c\<lparr>currentURDF := Some txt, currentRobot := Some r, hasBeenFramed := False,
        pendingMeshLoads := int n, totalMeshes := int n, loadedMeshes := 0,
        meshLoadProgress := map (\<lambda>k. (k, 0)) [0 ..< n],
        effects := effects s @ e2\<rparr>"
    by (simp add: s7_def s6 n_def meshCount_def)
  define s9 where "s9 = setTimeout MirrorOnly 50 (emit (CreateRobot r) s7)"
  have s9: "s9 = c\<lparr>currentURDF := Some txt, currentRobot := Some r, hasBeenFramed := False,
        pendingMeshLoads := int n, totalMeshes := int n, loadedMeshes := 0,
        meshLoadProgress := map (\<lambda>k. (k, 0)) [0 ..< n],
        timers := timers s @ [MirrorOnly],
        effects := effects s @ e2 @ [CreateRobot r, SetTimeout MirrorOnly 50]\<rparr>"
    by (simp add: s9_def s7 emit_def setTimeout_def cf)
  define s10 where "s10 = (if pendingMeshLoads s9 = 0 \<and> \<not> hasBeenFramed s9
                           then setTimeout FrameThenMirror 100 s9 else s9)"
  have s10: "s10 = c\<lparr>currentURDF := Some txt, currentRobot := Some r, hasBeenFramed := False,
        pendingMeshLoads := int n, totalMeshes := int n, loadedMeshes := 0,
        meshLoadProgress := map (\<lambda>k. (k, 0)) [0 ..< n],
        timers := timers s @ MirrorOnly # (if n = 0 then [FrameThenMirror] else []),
        effects := effects s @ e2 @ [CreateRobot r, SetTimeout MirrorOnly 50]
            @ (if n = 0 then [SetTimeout FrameThenMirror 100] else [])\<rparr>"
    by (simp add: s10_def s9 setTimeout_def)
  have le: "load_effects v s r = e2 @ [CreateRobot r, SetTimeout MirrorOnly 50]
            @ (if n = 0 then [SetTimeout FrameThenMirror 100] else [])
            @ (if v then [PostMessage ''trace'' ''loaded urdf''] else [])"
    by (simp add: load_effects_def e2_def e1_def n_def)
  have sc3: "scene s3" by (simp add: s3 cf)
  have "applyURDF d txt v s = trace_message v ''loaded urdf'' s10"
    using assms(2) sc3
    unfolding applyURDF_unfold Let_def s10_def s9_def s7_def s6_def s5_def s3_def c_def
    by simp
  also have "\<dots> = c\<lparr>currentURDF := Some txt, currentRobot := Some r, hasBeenFramed := False,
        pendingMeshLoads := int n, totalMeshes := int n, loadedMeshes := 0,
        meshLoadProgress := map (\<lambda>k. (k, 0)) [0 ..< n],
        timers := timers s @ MirrorOnly # (if n = 0 then [FrameThenMirror] else []),
        effects := effects s @ load_effects v s r\<rparr>"
    unfolding le by (simp add: s10 trace_message_def emit_def)
  finally show ?thesis by (simp add: c_def n_def)
qed

subsection \<open>The sample scenes\<close>

lemma loaded_scene_facts:
  "scene (loaded_scene l)" "currentRobot (loaded_scene l) = Some primitive_robot"
  "camera (loaded_scene l) \<noteq> None"
  by (simp_all add: loaded_scene_def demo_scene_def createScene_def newRobotScene_def applyURDF_unfold
      Let_def demo_deserialize_def trace_message_def emit_def setTimeout_def primitive_robot_def
      demo_robot_def allVisuals_def box_visual_def sample_mesh_def isMeshVisual_def clearStatus_def
      clearJointExerciseGizmos_def dispose_rot_def dispose_pos_def)


lemma setTarget_fields [simp]:
  "cam_target (setTarget t c) = t"
  "cam_position (setTarget t c) = cam_position c"
  by (auto simp: setTarget_def rebuildAnglesAndRadius_def checkLimits_def Let_def)

lemma setTarget_overwritten [simp]:
  "(setTarget t c)\<lparr>cam_radius := r, cam_alpha := a, cam_beta := b\<rparr>
     = c\<lparr>cam_target := t, cam_radius := r, cam_alpha := a, cam_beta := b\<rparr>"
  by (simp add: setTarget_def rebuildAnglesAndRadius_def checkLimits_def Let_def)




lemma demo_scene_camera:
  "camera (demo_scene l) = Some (newArcRotateCamera (defaultAlpha l) (5 * pi / 12) 1 (Vector3 0 0 0))"
  "\<not> hasBeenFramed (demo_scene l)" "scene (demo_scene l)"
  by (simp_all add: demo_scene_def createScene_def newRobotScene_def)



subsection \<open>The joint search\<close>

text \<open>
  The search returns nothing, or a joint of the robot that is not fixed and has a transform.
\<close>

lemma searchStep_found:
  assumes "found_ok J acc" and "snd e \<in> J"
  shows "found_ok J (searchStep m acc e)"
  using assms
  by (auto simp: found_ok_def searchStep_def Let_def split: option.splits)

lemma foldl_searchStep_found:
  assumes "found_ok J acc" and "snd ` set js \<subseteq> J"
  shows "found_ok J (foldl (searchStep m) acc js)"
  using assms
proof (induction js arbitrary: acc)
  case Nil
  then show ?case by simp
next
  case (Cons e js)
  have "found_ok J (searchStep m acc e)"
    using Cons.prems by (intro searchStep_found) auto
  then show ?case
    using Cons.IH [of "searchStep m acc e"] Cons.prems(2) by simp
qed

lemma findJoint_ok: "found_ok (snd ` set (joints r)) (findJoint m r)"
  unfolding findJoint_def
  by (rule foldl_searchStep_found) (simp_all add: found_ok_def)

lemma findJoint_found:
  "fst (findJoint m r) = Some j \<Longrightarrow>
     joint_type j \<noteq> Fixed \<and> transform j \<noteq> None \<and> j \<in> snd ` set (joints r)"
  using findJoint_ok [of r m] by (simp add: found_ok_def)

lemma findJoint_none: "fst (findJoint m r) = None \<Longrightarrow> snd (findJoint m r) = []"
  using findJoint_ok [of r m] by (simp add: found_ok_def)

lemma idle_clear: "manipulation_idle s \<Longrightarrow> clearJointExerciseGizmos s = s"
  by (cases s) (simp add: manipulation_idle_def clearJointExerciseGizmos_def dispose_rot_def
      dispose_pos_def Let_def)

lemma add_unsupported:
  "joint_type joint \<in> {Fixed, Planar, Floating} \<Longrightarrow>
   addExerciseGizmoToJoint joint s = s\<lparr>effects := effects (addExerciseGizmoToJoint joint s)\<rparr>"
  by (auto simp add: addExerciseGizmoToJoint_def emit_def Let_def)

lemma idle_fields [simp]:
  "manipulation_idle (s\<lparr>effects := es\<rparr>) = manipulation_idle s"
  "manipulation_idle (s\<lparr>hoveredJoint := h\<rparr>) = manipulation_idle s"
  "manipulation_idle (s\<lparr>statusText := t\<rparr>) = manipulation_idle s"
  "manipulation_idle (clearStatus s) = manipulation_idle s"
  "manipulation_idle (emit e s) = manipulation_idle s"
  "manipulation_idle (updateJointStatusLabel j s) = manipulation_idle s"
  by (simp_all add: manipulation_idle_def clearStatus_def emit_def updateJointStatusLabel_def)

lemma pointerDown_idle:
  assumes "manipulation_idle s"
    and "\<And>r j. currentRobot s = Some r \<Longrightarrow> fst (findJoint m r) = Some j \<Longrightarrow>
           joint_type j \<in> {Planar, Floating}"
  shows "manipulation_idle (pointerDown (Some m) s)"
proof (cases "scene s \<and> camera s \<noteq> None")
  case False
  then show ?thesis using assms(1) by (auto simp: pointerDown_def)
next
  case sc: True
  show ?thesis
  proof (cases "currentRobot s")
    case None
    then show ?thesis using assms(1) sc by (simp add: pointerDown_def Let_def)
  next
    case (Some r)
    show ?thesis
    proof (cases "fst (findJoint m r)")
      case None
      then show ?thesis
        using assms(1) sc Some by (simp add: pointerDown_def Let_def idle_clear)
    next
      case (Some j)
      then have ty: "joint_type j \<in> {Planar, Floating}"
        using assms(2) \<open>currentRobot s = Some r\<close> by blast
      have "manipulation_idle (addExerciseGizmoToJoint j st)" if "manipulation_idle st" for st
        using add_unsupported [of j st] ty that
        by (metis idle_fields(1) insert_iff)
      then show ?thesis
        using assms(1) sc Some \<open>currentRobot s = Some r\<close>
        by (simp add: pointerDown_def Let_def idle_clear)
    qed
  qed
qed

lemma arm_scene_facts:
  "scene (arm_scene l ty)" "camera (arm_scene l ty) \<noteq> None"
  "currentRobot (arm_scene l ty) = Some (arm_robot ty)"
  "manipulation_idle (arm_scene l ty)" "hoveredJoint (arm_scene l ty) = None"
  by (simp_all add: arm_scene_def demo_scene_def createScene_def newRobotScene_def
      manipulation_idle_def)

lemma arm_findJoint:
  "findJoint (sample_mesh 40 None) (arm_robot ty) =
     (if ty = Fixed then (None, [])
      else (Some (arm_joint ty), [''Found joint (child link visual): shoulder'']))"
  by (simp add: findJoint_def arm_robot_def searchStep_def matchingMeshes_def arm_joint_def Let_def sample_mesh_def
      arm_link_def box_visual_def visualHasMesh_def)

lemma all_fixed_none:
  assumes "\<forall>e \<in> set (joints r). joint_type (snd e) = Fixed"
  shows "findJoint m r = (None, [])"
proof -
  have "fst (findJoint m r) = None"
  proof (cases "fst (findJoint m r)")
    case (Some j)
    then show ?thesis using findJoint_found [of m r j] assms by auto
  qed simp
  then show ?thesis using findJoint_none [of m r] by (simp add: prod_eq_iff)
qed

lemma pointerDown_all_fixed:
  assumes "scene s" "camera s \<noteq> None" "currentRobot s = Some r"
    and "\<forall>e \<in> set (joints r). joint_type (snd e) = Fixed"
    and "manipulation_idle s" "hoveredJoint s = None"
  shows "pointerDown (Some m) s = clearStatus s"
  using assms(1-3,5,6) all_fixed_none [OF assms(4), of m]
  by (cases s)
     (simp add: pointerDown_def Let_def clearStatus_def clearJointExerciseGizmos_def
        dispose_rot_def dispose_pos_def manipulation_idle_def option.map_comp comp_def)

lemma add_effects:
  assumes "transform joint \<noteq> None"
  shows "joint_type joint = Fixed \<Longrightarrow> effects (addExerciseGizmoToJoint joint s) =
           effects s @ [ConsoleLog (''Creating gizmo for joint: '' @ joint_name joint
                                     @ '', type: '' @ type_string (joint_type joint))]"
    and "joint_type joint = Planar \<Longrightarrow> effects (addExerciseGizmoToJoint joint s) =
           effects s @ [ConsoleLog (''Creating gizmo for joint: '' @ joint_name joint
                                     @ '', type: '' @ type_string (joint_type joint)),
                        ConsoleLog (planar_notice (joint_name joint))]"
    and "joint_type joint = Floating \<Longrightarrow> effects (addExerciseGizmoToJoint joint s) =
           effects s @ [ConsoleLog (''Creating gizmo for joint: '' @ joint_name joint
                                     @ '', type: '' @ type_string (joint_type joint)),
                        ConsoleLog (floating_notice (joint_name joint))]"
  using assms by (simp_all add: addExerciseGizmoToJoint_def emit_def Let_def)

subsection \<open>Logs and projections\<close>

lemma emissions_append [simp]: "emissions (xs @ ys) = emissions xs @ emissions ys"
  by (induction xs rule: emissions.induct) simp_all

lemma framings_append [simp]: "framings (xs @ ys) = framings xs + framings ys"
  by (simp add: framings_def)

lemma non_console_append [simp]: "non_console (xs @ ys) = non_console xs @ non_console ys"
  by (simp add: non_console_def)

lemma emissions_non_console: "emissions (non_console es) = emissions es"
  by (induction es rule: emissions.induct) (simp_all add: non_console_def)


lemma non_console_logs [simp]: "non_console (map ConsoleLog logs) = []"
  by (induction logs) (simp_all add: non_console_def)

lemma loader_view_simps [simp]:
  "loader_view (emit e s) = loader_view s"
  "loader_view (clearStatus s) = loader_view s"
  "loader_view (clearJointExerciseGizmos s) = loader_view s"
  "loader_view (updateJointStatusLabel j s) = loader_view s"
  "loader_view (s\<lparr>hoveredJoint := h\<rparr>) = loader_view s"
  "loader_view (s\<lparr>effects := es\<rparr>) = loader_view s"
  by (simp_all add: loader_view_def emit_def clearStatus_def clearJointExerciseGizmos_def
      dispose_rot_def dispose_pos_def updateJointStatusLabel_def Let_def split: option.splits)

lemma loader_view_add [simp]: "loader_view (addExerciseGizmoToJoint j s) = loader_view s"
  by (simp add: addExerciseGizmoToJoint_def rotation_case_def position_case_def
      new_rotation_gizmo_def new_position_gizmo_def Let_def loader_view_def emit_def
      split: JointType.splits)

lemma loader_view_pointerDown [simp]: "loader_view (pointerDown m s) = loader_view s"
  by (simp add: pointerDown_def Let_def split: option.splits)

lemma non_console_simps [simp]:
  "non_console (effects (emit (ConsoleLog x) s)) = non_console (effects s)"
  "effects (updateJointStatusLabel j s) = effects s"
  "effects (s\<lparr>hoveredJoint := h\<rparr>) = effects s"
  by (simp_all add: emit_def updateJointStatusLabel_def non_console_def)

lemma non_console_add [simp]:
  "non_console (effects (addExerciseGizmoToJoint j s)) = non_console (effects s)"
  by (simp add: addExerciseGizmoToJoint_def rotation_case_def position_case_def
      new_rotation_gizmo_def new_position_gizmo_def Let_def emit_def non_console_def
      split: JointType.splits)

lemma non_console_pointerDown [simp]:
  "non_console (effects (pointerDown m s)) = non_console (effects s)"
  by (simp add: pointerDown_def Let_def split: option.splits)

subsection \<open>Loads that fail or have no scene\<close>

lemma applyURDF_prefix:
  "trace_message v ''loading urdf''
      (case currentRobot c of None \<Rightarrow> c
       | Some tempR \<Rightarrow> emit (DisposeRobot tempR) (c\<lparr>currentRobot := None\<rparr>))
   = c\<lparr>currentRobot := None,
       effects := effects c @ (case currentRobot c of None \<Rightarrow> [] | Some R \<Rightarrow> [DisposeRobot R])
                    @ (if v then [PostMessage ''trace'' ''loading urdf''] else [])\<rparr>"
  by (cases "currentRobot c"; cases v; cases c) (simp_all add: trace_message_def emit_def)

lemma applyURDF_failure:
  assumes "scene s" and "d txt = Inl msg"
  shows "applyURDF d txt v s =
     (clearStatus (clearJointExerciseGizmos s))
       \<lparr>currentURDF := Some txt, currentRobot := None, hasBeenFramed := False,
        pendingMeshLoads := 0, totalMeshes := 0, loadedMeshes := 0, meshLoadProgress := [],
        effects := effects s
           @ (case currentRobot s of None \<Rightarrow> [] | Some R \<Rightarrow> [DisposeRobot R])
           @ (if v then [PostMessage ''trace'' ''loading urdf'', PostMessage ''error'' msg]
              else [ConsoleError (''Error loading urdf: '' @ msg)])\<rparr>"
proof -
  define c where "c = clearStatus (clearJointExerciseGizmos s)"
  have cf: "currentRobot c = currentRobot s" "effects c = effects s" "scene c"
    using assms(1) by (simp_all add: c_def)
  have "applyURDF d txt v s =
        reportError v msg
          ((c\<lparr>currentRobot := None,
              effects := effects c @ (case currentRobot c of None \<Rightarrow> [] | Some R \<Rightarrow> [DisposeRobot R])
                    @ (if v then [PostMessage ''trace'' ''loading urdf''] else [])\<rparr>)
           \<lparr>currentURDF := Some txt, pendingMeshLoads := 0, hasBeenFramed := False,
            totalMeshes := 0, loadedMeshes := 0, meshLoadProgress := []\<rparr>)"
    using assms(2) cf(3)
    unfolding applyURDF_unfold Let_def applyURDF_prefix c_def [symmetric]
    by simp
  also have "\<dots> = c\<lparr>currentURDF := Some txt, currentRobot := None, hasBeenFramed := False,
        pendingMeshLoads := 0, totalMeshes := 0, loadedMeshes := 0, meshLoadProgress := [],
        effects := effects s
           @ (case currentRobot s of None \<Rightarrow> [] | Some R \<Rightarrow> [DisposeRobot R])
           @ (if v then [PostMessage ''trace'' ''loading urdf'', PostMessage ''error'' msg]
              else [ConsoleError (''Error loading urdf: '' @ msg)])\<rparr>"
    by (cases v) (simp_all add: reportError_def emit_def cf)
  finally show ?thesis by (simp add: c_def)
qed

lemma applyURDF_no_scene:
  assumes "\<not> scene s"
  shows "applyURDF d txt v s =
     (clearStatus (clearJointExerciseGizmos s))
       \<lparr>currentRobot := None,
        effects := effects s
           @ (case currentRobot s of None \<Rightarrow> [] | Some R \<Rightarrow> [DisposeRobot R])
           @ (if v then [PostMessage ''trace'' ''loading urdf'', PostMessage ''trace'' ''loaded urdf'']
              else [])\<rparr>"
proof -
  define c where "c = clearStatus (clearJointExerciseGizmos s)"
  have cf: "currentRobot c = currentRobot s" "effects c = effects s" "\<not> scene c"
    using assms(1) by (simp_all add: c_def)
  have "applyURDF d txt v s =
        trace_message v ''loaded urdf''
          (c\<lparr>currentRobot := None,
              effects := effects c @ (case currentRobot c of None \<Rightarrow> [] | Some R \<Rightarrow> [DisposeRobot R])
                    @ (if v then [PostMessage ''trace'' ''loading urdf''] else [])\<rparr>)"
    using cf(3)
    unfolding applyURDF_unfold Let_def applyURDF_prefix c_def [symmetric]
    by simp
  also have "\<dots> = c\<lparr>currentRobot := None,
        effects := effects s
           @ (case currentRobot s of None \<Rightarrow> [] | Some R \<Rightarrow> [DisposeRobot R])
           @ (if v then [PostMessage ''trace'' ''loading urdf'', PostMessage ''trace'' ''loaded urdf'']
              else [])\<rparr>"
    by (cases v) (simp_all add: trace_message_def emit_def cf)
  finally show ?thesis by (simp add: c_def)
qed

lemma emissions_load_effects:
  "emissions (load_effects v s r) =
     (if onProgressCallback s \<and> 0 < meshCount r then [(0, int (meshCount r), 0)] else [])"
  by (simp add: load_effects_def split: option.splits)

lemma applyURDF_callback [simp]:
  "onProgressCallback (applyURDF d txt v s) = onProgressCallback s"
proof (cases "scene s")
  case True
  then show ?thesis
    by (cases "d txt") (simp_all add: applyURDF_failure applyURDF_success)
next
  case False
  then show ?thesis by (simp add: applyURDF_no_scene)
qed

lemma applyURDF_emissions:
  "emissions (effects (applyURDF d txt v s)) =
     emissions (effects s)
       @ (case d txt of Inl msg \<Rightarrow> []
          | Inr r \<Rightarrow> if scene s \<and> onProgressCallback s \<and> 0 < meshCount r
                     then [(0, int (meshCount r), 0)] else [])"
proof (cases "scene s")
  case True
  then show ?thesis
    by (cases "d txt")
       (simp_all add: applyURDF_failure applyURDF_success emissions_load_effects
          split: option.splits)
next
  case False
  then show ?thesis
    by (cases "d txt") (simp_all add: applyURDF_no_scene split: option.splits)
qed

subsection \<open>Mesh events, timers and the camera\<close>

lemma fold_sum: "fold (\<lambda>e acc. acc + snd e) M (a::real) = a + sum_list (map snd M)"
  by (induction M arbitrary: a) simp_all

lemma updateOverallProgress_eq:
  "updateOverallProgress s =
     s\<lparr>effects := effects s
         @ (if onProgressCallback s \<and> totalMeshes s \<noteq> 0
            then [Progress (loadedMeshes s) (totalMeshes s)
                    (sum_list (map snd (meshLoadProgress s)) / real_of_int (totalMeshes s))]
            else [])\<rparr>"
  by (cases s) (simp add: updateOverallProgress_def Let_def emit_def fold_sum)

lemma onMeshProgress_eq:
  "onMeshProgress k ev s =
     s\<lparr>meshLoadProgress :=
          AList.update k (if lengthComputable ev \<and> 0 < ev_total ev
                          then ev_loaded ev / ev_total ev * 100 else 0) (meshLoadProgress s),
       effects := effects s
         @ (if onProgressCallback s \<and> totalMeshes s \<noteq> 0
            then [Progress (loadedMeshes s) (totalMeshes s)
                    (sum_list (map snd
                       (AList.update k (if lengthComputable ev \<and> 0 < ev_total ev
                          then ev_loaded ev / ev_total ev * 100 else 0) (meshLoadProgress s)))
                     / real_of_int (totalMeshes s))]
            else [])\<rparr>"
  by (simp add: onMeshProgress_def Let_def updateOverallProgress_eq)

lemma onMeshComplete_eq:
  "onMeshComplete k s =
     s\<lparr>pendingMeshLoads := pendingMeshLoads s - 1,
       loadedMeshes := loadedMeshes s + 1,
       meshLoadProgress := AList.update k 100 (meshLoadProgress s),
       timers := timers s
         @ (if pendingMeshLoads s = 1 \<and> \<not> hasBeenFramed s then [FrameThenMirror] else []),
       effects := effects s
         @ (if onProgressCallback s \<and> totalMeshes s \<noteq> 0
            then [Progress (loadedMeshes s + 1) (totalMeshes s)
                    (sum_list (map snd (AList.update k 100 (meshLoadProgress s)))
                     / real_of_int (totalMeshes s))]
            else [])
         @ (if pendingMeshLoads s = 1 \<and> \<not> hasBeenFramed s
            then [SetTimeout FrameThenMirror 100] else [])\<rparr>"
  by (cases s) (simp add: onMeshComplete_def Let_def updateOverallProgress_eq setTimeout_def)

lemma frameModel_frame [simp]:
  "effects (frameModel l s) = effects s"
  "timers (frameModel l s) = timers s"
  "pendingMeshLoads (frameModel l s) = pendingMeshLoads s"
  "onProgressCallback (frameModel l s) = onProgressCallback s"
  "totalMeshes (frameModel l s) = totalMeshes s"
  "loadedMeshes (frameModel l s) = loadedMeshes s"
  "meshLoadProgress (frameModel l s) = meshLoadProgress s"
  "currentRobot (frameModel l s) = currentRobot s"
  "scene (frameModel l s) = scene s"
  "gizmo_view (frameModel l s) = gizmo_view s"
  by (simp_all add: frameModel_def Let_def gizmo_view_def split: option.splits)

lemma fireTimer_frame [simp]:
  "effects (fireTimer l i s) =
     effects s @ (if i < length (timers s) then [UpdateMirrorReflections] else [])"
  "pendingMeshLoads (fireTimer l i s) = pendingMeshLoads s"
  "onProgressCallback (fireTimer l i s) = onProgressCallback s"
  "totalMeshes (fireTimer l i s) = totalMeshes s"
  "loadedMeshes (fireTimer l i s) = loadedMeshes s"
  "meshLoadProgress (fireTimer l i s) = meshLoadProgress s"
  "currentRobot (fireTimer l i s) = currentRobot s"
  "scene (fireTimer l i s) = scene s"
  "timers (fireTimer l i s) = take i (timers s) @ drop (Suc i) (timers s)"
  by (simp_all add: fireTimer_def runTask_def emit_def non_console_def
      split: Task.splits)

lemma gizmo_view_simps [simp]:
  "gizmo_view (s\<lparr>timers := ts\<rparr>) = gizmo_view s"
  "gizmo_view (s\<lparr>effects := es\<rparr>) = gizmo_view s"
  "gizmo_view (emit e s) = gizmo_view s"
  "gizmo_view (setLoadProgressCallback s) = gizmo_view s"
  "gizmo_view (onMeshProgress k ev s) = gizmo_view s"
  "gizmo_view (onMeshComplete k s) = gizmo_view s"
  by (simp_all add: gizmo_view_def emit_def setLoadProgressCallback_def onMeshProgress_eq
      onMeshComplete_eq)

lemma gizmo_view_fireTimer [simp]: "gizmo_view (fireTimer l i s) = gizmo_view s"
  by (simp add: fireTimer_def runTask_def split: Task.splits)


lemma resetCamera_frame [simp]:
  "effects (resetCamera l s) = effects s"
  "timers (resetCamera l s) = timers s"
  "pendingMeshLoads (resetCamera l s) = pendingMeshLoads s"
  "hasBeenFramed (resetCamera l s) = hasBeenFramed s"
  "onProgressCallback (resetCamera l s) = onProgressCallback s"
  "gizmo_view (resetCamera l s) = gizmo_view s"
  "currentRobot (resetCamera l s) = currentRobot s"
  "scene (resetCamera l s) = scene s"
  by (simp_all add: resetCamera_def gizmo_view_def split: option.splits)

lemma loader_view_fields:
  "loader_view s' = loader_view s \<Longrightarrow>
     scene s' = scene s \<and> camera s' = camera s \<and> currentRobot s' = currentRobot s
     \<and> hasBeenFramed s' = hasBeenFramed s \<and> pendingMeshLoads s' = pendingMeshLoads s
     \<and> totalMeshes s' = totalMeshes s \<and> loadedMeshes s' = loadedMeshes s
     \<and> meshLoadProgress s' = meshLoadProgress s \<and> onProgressCallback s' = onProgressCallback s
     \<and> timers s' = timers s"
  by (simp add: loader_view_def)

lemmas pointerDown_fields = loader_view_fields [OF loader_view_pointerDown]

lemma emissions_cong: "non_console es' = non_console es \<Longrightarrow> emissions es' = emissions es"
  by (metis emissions_non_console)


lemma step_silent:
  assumes "\<not> onProgressCallback s" and "e \<noteq> SetLoadProgressCallback"
  shows "\<not> onProgressCallback (step l d e s)
       \<and> emissions (effects (step l d e s)) = emissions (effects s)"
proof (cases e)
  case (ApplyURDF u v)
  then show ?thesis
    using assms(1) by (simp add: applyURDF_emissions split: sum.splits)
next
  case (MeshProgress k ev)
  then show ?thesis using assms(1) by (simp add: onMeshProgress_eq)
next
  case (MeshComplete k)
  then show ?thesis using assms(1) by (simp add: onMeshComplete_eq)
next
  case (PointerDown m)
  have "emissions (effects (pointerDown m s)) = emissions (effects s)"
    by (rule emissions_cong) simp
  then show ?thesis
    using assms(1) PointerDown pointerDown_fields [of m s] by simp
next
  case (FireTimer i)
  then show ?thesis
    using assms(1) by simp
next
  case ResetCamera
  then show ?thesis using assms(1) by simp
next
  case SetLoadProgressCallback
  then show ?thesis using assms(2) by simp
qed

lemma run_silent:
  assumes "\<not> onProgressCallback s" and "SetLoadProgressCallback \<notin> set evs"
  shows "\<not> onProgressCallback (run l d evs s)
       \<and> emissions (effects (run l d evs s)) = emissions (effects s)"
  using assms
proof (induction evs arbitrary: s)
  case Nil
  then show ?case by (simp add: run_def)
next
  case (Cons e evs)
  have st: "\<not> onProgressCallback (step l d e s)
       \<and> emissions (effects (step l d e s)) = emissions (effects s)"
    using Cons.prems by (intro step_silent) auto
  have "run l d (e # evs) s = run l d evs (step l d e s)" by (simp add: run_def)
  then show ?case
    using Cons.IH [of "step l d e s"] st Cons.prems(2) by simp
qed

lemma sample_meshCount:
  "meshCount primitive_robot = 0" "meshCount mixed_robot = 1" "meshCount two_mesh_robot = 2"
  by (simp_all add: meshCount_def primitive_robot_def mixed_robot_def two_mesh_robot_def
      demo_robot_def allVisuals_def isMeshVisual_def box_visual_def mesh_visual_def)

lemma demo_scene_fields:
  "currentRobot (demo_scene l) = None" "effects (demo_scene l) = []" "timers (demo_scene l) = []"
  "\<not> onProgressCallback (demo_scene l)"
  by (simp_all add: demo_scene_def createScene_def newRobotScene_def)

subsection \<open>The aggregator while a load settles\<close>

lemma update_keys_present:
  "k \<in> set (map fst al) \<Longrightarrow> map fst (AList.update k v al) = map fst al"
  by (simp add: update_keys)

lemma load_inv_progress:
  assumes "load_inv n F st" and "0 < n" and "k < n" and "k \<notin> set F"
  shows "load_inv n F (onMeshProgress k ev st)"
proof -
  let ?p = "if lengthComputable ev \<and> 0 < ev_total ev then ev_loaded ev / ev_total ev * 100 else 0"
  let ?M = "AList.update k ?p (meshLoadProgress st)"
  have keys: "map fst (meshLoadProgress st) = [0 ..< n]" using assms(1) by (simp add: load_inv_def)
  then have "k \<in> set (map fst (meshLoadProgress st))" using assms(3) by simp
  then have k': "map fst ?M = [0 ..< n]" using keys by (simp only: update_keys_present)
  have others: "\<forall>j \<in> set F. map_of ?M j = Some 100"
    using assms(1,4) by (auto simp: load_inv_def update_conv')
  have cb: "onProgressCallback st" "totalMeshes st = int n"
    using assms(1) by (simp_all add: load_inv_def)
  have eff: "effects (onMeshProgress k ev st) =
        effects st @ [Progress (loadedMeshes st) (int n) (sum_list (map snd ?M) / real n)]"
    using cb assms(2) by (simp add: onMeshProgress_eq)
  have flds: "totalMeshes (onMeshProgress k ev st) = int n"
    "onProgressCallback (onMeshProgress k ev st)"
    "loadedMeshes (onMeshProgress k ev st) = loadedMeshes st"
    "meshLoadProgress (onMeshProgress k ev st) = ?M"
    using cb by (simp_all add: onMeshProgress_eq)
  show ?thesis
    using assms(1) k' others flds eff by (simp add: load_inv_def)
qed

lemma load_inv_complete:
  assumes "load_inv n F st" and "0 < n" and "k < n" and "k \<notin> set F"
  shows "load_inv n (k # F) (onMeshComplete k st)"
proof -
  let ?M = "AList.update k 100 (meshLoadProgress st)"
  have keys: "map fst (meshLoadProgress st) = [0 ..< n]" using assms(1) by (simp add: load_inv_def)
  then have "k \<in> set (map fst (meshLoadProgress st))" using assms(3) by simp
  then have k': "map fst ?M = [0 ..< n]" using keys by (simp only: update_keys_present)
  have others: "\<forall>j \<in> set (k # F). map_of ?M j = Some 100"
    using assms(1,4) by (auto simp: load_inv_def update_conv')
  have cb: "onProgressCallback st" "totalMeshes st = int n"
    using assms(1) by (simp_all add: load_inv_def)
  have eff: "emissions (effects (onMeshComplete k st)) =
        emissions (effects st) @ [(loadedMeshes st + 1, int n, sum_list (map snd ?M) / real n)]"
    using cb assms(2) by (simp add: onMeshComplete_eq)
  have flds: "totalMeshes (onMeshComplete k st) = int n"
    "onProgressCallback (onMeshComplete k st)"
    "loadedMeshes (onMeshComplete k st) = loadedMeshes st + 1"
    "meshLoadProgress (onMeshComplete k st) = ?M"
    using cb by (simp_all add: onMeshComplete_eq)
  show ?thesis
    using assms(1,3,4) k' others flds eff by (simp add: load_inv_def)
qed

lemma load_inv_run:
  assumes "load_trace n F evs" and "load_inv n F st" and "0 < n"
  shows "\<exists>F'. load_inv n F' (run l d evs st) \<and> (\<forall>k < n. k \<in> set F')"
  using assms
proof (induction n F evs arbitrary: st rule: load_trace.induct)
  case (1 n finished)
  then show ?case by (auto simp: run_def list_all_iff)
next
  case (2 n finished k ev es)
  then have "load_inv n finished (onMeshProgress k ev st)"
    by (intro load_inv_progress) simp_all
  then show ?case
    using 2 by (simp add: run_def)
next
  case (3 n finished k es)
  then have "load_inv n (k # finished) (onMeshComplete k st)"
    by (intro load_inv_complete) simp_all
  then show ?case
    using 3 by (simp add: run_def)
qed simp_all

lemma sum_snd_const:
  "\<forall>x \<in> set M. snd x = (c::real) \<Longrightarrow> sum_list (map snd M) = c * real (length M)"
  by (induction M) (simp_all add: algebra_simps)

lemma load_inv_final:
  assumes "load_inv n F st" and "\<forall>k < n. k \<in> set F" and "0 < n"
  shows "last (emissions (effects st)) = (int n, int n, 100)"
proof -
  let ?M = "meshLoadProgress st"
  have keys: "map fst ?M = [0 ..< n]" and done': "\<forall>k \<in> set F. map_of ?M k = Some 100"
    and dist: "distinct F" and sub: "set F \<subseteq> {..<n}"
    using assms(1) by (simp_all add: load_inv_def)
  have "set F = {..<n}" using sub assms(2) by auto
  then have "length F = n" using dist distinct_card [of F] by simp
  then have loaded: "loadedMeshes st = int n" using assms(1) by (simp add: load_inv_def)
  have dk: "distinct (map fst ?M)" by (simp add: keys)
  have "v = 100" if "(k, v) \<in> set ?M" for k v
  proof -
    have "k \<in> set (map fst ?M)" using that by force
    then have "k < n" by (simp add: keys)
    then have "map_of ?M k = Some 100" using done' assms(2) by simp
    moreover have "map_of ?M k = Some v" using dk that by simp
    ultimately show ?thesis by simp
  qed
  then have "\<forall>x \<in> set ?M. snd x = 100" by auto
  then have "sum_list (map snd ?M) = 100 * real (length ?M)"
    by (rule sum_snd_const)
  moreover have "length ?M = n" using keys by (metis length_map length_upt minus_nat.diff_0)
  ultimately have "sum_list (map snd ?M) / real n = 100" using assms(3) by simp
  then show ?thesis using assms(1) loaded by (simp add: load_inv_def)
qed

lemma load_inv_initial:
  assumes "scene s" and "onProgressCallback s" and "d u = Inr r" and "0 < meshCount r"
  shows "load_inv (meshCount r) [] (applyURDF d u v s)"
proof -
  have z: "sum_list (map snd (map (\<lambda>k. (k, 0::real)) [0 ..< meshCount r])) = 0"
    by (simp add: comp_def)
  have k: "map fst (map (\<lambda>k. (k, 0::real)) [0 ..< meshCount r]) = [0 ..< meshCount r]"
    by (simp add: comp_def)
  have eq: "applyURDF d u v s =
     (clearStatus (clearJointExerciseGizmos s))
       \<lparr>currentURDF := Some u, currentRobot := Some r, hasBeenFramed := False,
        pendingMeshLoads := int (meshCount r), totalMeshes := int (meshCount r),
        loadedMeshes := 0, meshLoadProgress := map (\<lambda>k. (k, 0)) [0 ..< meshCount r],
        timers := timers s @ MirrorOnly # (if meshCount r = 0 then [FrameThenMirror] else []),
        effects := effects s @ load_effects v s r\<rparr>"
    using assms(1,3) by (rule applyURDF_success)
  show ?thesis
    using assms z k
    by (simp add: load_inv_def eq emissions_load_effects)
qed

subsection \<open>Requests for framing\<close>

lemma framings_simps [simp]:
  "framings [] = 0"
  "framings (Progress a b c # es) = framings es"
  "framings (UpdateMirrorReflections # es) = framings es"
  "framings (SetTimeout FrameThenMirror 100 # es) = Suc (framings es)"
  "framings (SetTimeout MirrorOnly 50 # es) = framings es"
  "framings (CreateRobot r # es) = framings es"
  "framings (DisposeRobot r # es) = framings es"
  "framings (PostMessage x y # es) = framings es"
  "framings (ConsoleError x # es) = framings es"
  "framings (ConsoleLog x # es) = framings es"
  by (simp_all add: framings_def)




lemma completions_Cons [simp]:
  "completions [] = 0"
  "completions (e # evs) = (if is_complete e then 1 else 0) + completions evs"
  by (simp_all add: completions_def)


lemma clear_loader_fields:
  "camera (clearStatus (clearJointExerciseGizmos s)) = camera s"
  "hasBeenFramed (clearStatus (clearJointExerciseGizmos s)) = hasBeenFramed s"
  "pendingMeshLoads (clearStatus (clearJointExerciseGizmos s)) = pendingMeshLoads s"
  "totalMeshes (clearStatus (clearJointExerciseGizmos s)) = totalMeshes s"
  "loadedMeshes (clearStatus (clearJointExerciseGizmos s)) = loadedMeshes s"
  "meshLoadProgress (clearStatus (clearJointExerciseGizmos s)) = meshLoadProgress s"
  using loader_view_fields [of "clearStatus (clearJointExerciseGizmos s)" s] by simp_all

lemma applyURDF_scene_camera [simp]:
  "scene (applyURDF d u v s) = scene s"
  "camera (applyURDF d u v s) = camera s"
proof -
  show "scene (applyURDF d u v s) = scene s"
  proof (cases "scene s")
    case True
    then show ?thesis
      by (cases "d u") (simp_all add: applyURDF_failure applyURDF_success)
  next
    case False
    then show ?thesis by (simp add: applyURDF_no_scene)
  qed
  show "camera (applyURDF d u v s) = camera s"
  proof (cases "scene s")
    case True
    then show ?thesis
      by (cases "d u") (simp_all add: applyURDF_failure applyURDF_success clear_loader_fields)
  next
    case False
    then show ?thesis by (simp add: applyURDF_no_scene clear_loader_fields)
  qed
qed

lemma applyURDF_resets:
  assumes "scene s"
  shows "\<not> hasBeenFramed (applyURDF d u v s)"
    and "loadedMeshes (applyURDF d u v s) = 0"
    and "totalMeshes (applyURDF d u v s) = (case d u of Inl m \<Rightarrow> 0 | Inr r \<Rightarrow> int (meshCount r))"
    and "pendingMeshLoads (applyURDF d u v s) = (case d u of Inl m \<Rightarrow> 0 | Inr r \<Rightarrow> int (meshCount r))"
    and "meshLoadProgress (applyURDF d u v s) =
           (case d u of Inl m \<Rightarrow> [] | Inr r \<Rightarrow> map (\<lambda>k. (k, 0)) [0 ..< meshCount r])"
    and "currentRobot (applyURDF d u v s) = (case d u of Inl m \<Rightarrow> None | Inr r \<Rightarrow> Some r)"
  using assms by (cases "d u"; simp add: applyURDF_failure applyURDF_success)+




lemma demo_deserialize_simps [simp]:
  "demo_deserialize ''primitive.urdf'' = Inr primitive_robot"
  "demo_deserialize ''mixed.urdf'' = Inr mixed_robot"
  "demo_deserialize ''two_mesh.urdf'' = Inr two_mesh_robot"
  "demo_deserialize ''<robot/>'' = Inl ''URDF has no links''"
  by (simp_all add: demo_deserialize_def)

subsection \<open>The transform tree\<close>

lemma parentOrphans_orphan:
  "l \<in> set ls \<Longrightarrow> isOrphan js l \<Longrightarrow> parentOrphans js ls p (LinkTransform l) = Some RootTransform"
  unfolding parentOrphans_def
proof (induction ls arbitrary: p rule: rev_induct)
  case Nil
  then show ?case by simp
next
  case (snoc x xs)
  then show ?case by (cases "x = l") auto
qed

lemma wireJoint_other:
  "childName (snd e) \<noteq> l \<Longrightarrow> wireJoint ls e p (LinkTransform l) = p (LinkTransform l)"
  by (simp add: wireJoint_def Let_def)

lemma fold_wireJoint_orphan:
  "isOrphan js l \<Longrightarrow> fold (wireJoint ls) js p (LinkTransform l) = p (LinkTransform l)"
proof (induction js arbitrary: p)
  case Nil
  then show ?case by simp
next
  case (Cons e js)
  then have "childName (snd e) \<noteq> l" and "isOrphan js l"
    by (simp_all add: isOrphan_def)
  then show ?case
    using Cons.IH [of "wireJoint ls e p"] by (simp add: wireJoint_other)
qed

lemma count_root_links: "count_list (map LinkTransform ls) RootTransform = 0"
  by (induction ls) simp_all

lemma count_root_joints:
  "count_list (map (\<lambda>e. JointTransform (fst e)) js) RootTransform = 0"
  by (induction js) simp_all

subsection \<open>Gizmo bookkeeping\<close>

lemma gizmo_view_fields:
  "gizmo_view s' = gizmo_view s \<Longrightarrow>
     planeRotationGizmo s' = planeRotationGizmo s \<and> planePositionGizmo s' = planePositionGizmo s
     \<and> liveGizmos s' = liveGizmos s \<and> hoveredJoint s' = hoveredJoint s"
  by (simp add: gizmo_view_def)

lemma gizmo_view_more [simp]:
  "gizmo_view (clearStatus s) = gizmo_view s"
  "gizmo_view (updateJointStatusLabel j s) = gizmo_view s"
  "gizmo_view (s\<lparr>currentURDF := a1\<rparr>) = gizmo_view s"
  "gizmo_view (s\<lparr>currentRobot := a2\<rparr>) = gizmo_view s"
  "gizmo_view (s\<lparr>hasBeenFramed := a3\<rparr>) = gizmo_view s"
  "gizmo_view (s\<lparr>pendingMeshLoads := a4\<rparr>) = gizmo_view s"
  "gizmo_view (s\<lparr>totalMeshes := a5\<rparr>) = gizmo_view s"
  "gizmo_view (s\<lparr>loadedMeshes := a6\<rparr>) = gizmo_view s"
  "gizmo_view (s\<lparr>meshLoadProgress := a7\<rparr>) = gizmo_view s"
  "gizmo_view (s\<lparr>statusText := a8\<rparr>) = gizmo_view s"
  by (simp_all add: gizmo_view_def clearStatus_def updateJointStatusLabel_def)

lemma gizmo_view_applyURDF:
  "gizmo_view (applyURDF d u v s) = gizmo_view (clearJointExerciseGizmos s)"
proof (cases "scene s")
  case True
  then show ?thesis
    by (cases "d u") (simp_all add: applyURDF_failure applyURDF_success)
next
  case False
  then show ?thesis by (simp add: applyURDF_no_scene)
qed

lemma clear_gizmo_view:
  "gizmo_inv s \<Longrightarrow> gizmo_view (clearJointExerciseGizmos s) = (None, None, [], hoveredJoint s)"
  by (cases "planeRotationGizmo s"; cases "planePositionGizmo s")
     (simp_all add: gizmo_inv_def gizmo_view_def clearJointExerciseGizmos_def dispose_rot_def
        dispose_pos_def Let_def)

lemma add_on_cleared:
  assumes "planeRotationGizmo s = None" "planePositionGizmo s = None" "liveGizmos s = []"
    and "transform j \<noteq> None"
  shows "gizmo_inv (addExerciseGizmoToJoint j s)"
    and "manipulation_idle (addExerciseGizmoToJoint j s) \<longleftrightarrow> \<not> movable j"
    and "hoveredJoint (addExerciseGizmoToJoint j s) = hoveredJoint s"
    and "statusText (addExerciseGizmoToJoint j s) = statusText s"
  using assms
  by (cases "joint_type j";
      simp add: addExerciseGizmoToJoint_def rotation_case_def position_case_def
        new_rotation_gizmo_def new_position_gizmo_def Let_def emit_def gizmo_inv_def
        manipulation_idle_def movable_def)+

lemma gizmo_inv_cong: "gizmo_view s' = gizmo_view s \<Longrightarrow> gizmo_inv s' = gizmo_inv s"
  by (simp add: gizmo_view_def gizmo_inv_def)

lemma idle_cong: "gizmo_view s' = gizmo_view s \<Longrightarrow> manipulation_idle s' = manipulation_idle s"
  by (simp add: gizmo_view_def manipulation_idle_def)

lemma gizmo_view_hovered [simp]:
  "gizmo_view (s\<lparr>hoveredJoint := h\<rparr>) =
     (planeRotationGizmo s, planePositionGizmo s, liveGizmos s, h)"
  by (simp add: gizmo_view_def)

lemma gizmo_inv_hovered [simp]: "gizmo_inv (s\<lparr>hoveredJoint := h\<rparr>) = gizmo_inv s"
  by (simp add: gizmo_inv_def)

lemma clear_hovered:
  "clearJointExerciseGizmos (s\<lparr>hoveredJoint := h\<rparr>) = (clearJointExerciseGizmos s)\<lparr>hoveredJoint := h\<rparr>"
  by (cases "planeRotationGizmo s"; cases "planePositionGizmo s")
     (simp_all add: clearJointExerciseGizmos_def dispose_rot_def dispose_pos_def Let_def)

lemma statusText_simps [simp]:
  "statusText (clearJointExerciseGizmos s) = statusText s"
  "statusText (emit e s) = statusText s"
  "statusText (clearStatus s) = map_option (\<lambda>_. EmptyText) (statusText s)"
  by (simp_all add: clearJointExerciseGizmos_def dispose_rot_def dispose_pos_def Let_def emit_def
      clearStatus_def split: option.splits)

lemma gizmo_view_eq_iff:
  "gizmo_view s = (a, b, c, d) \<longleftrightarrow>
     planeRotationGizmo s = a \<and> planePositionGizmo s = b \<and> liveGizmos s = c \<and> hoveredJoint s = d"
  by (auto simp: gizmo_view_def)

lemma pointerDown_unresolved:
  assumes "scene s" "camera s \<noteq> None" "currentRobot s = Some r"
    and "fst (findJoint m r) = None" and "gizmo_inv s"
  shows "gizmo_view (pointerDown (Some m) s) = (None, None, [], None)"
    and "statusText (pointerDown (Some m) s) = map_option (\<lambda>_. EmptyText) (statusText s)"
proof -
  define y where "y = (clearStatus s)\<lparr>effects := effects (clearStatus s)
        @ map ConsoleLog (snd (findJoint m r))\<rparr>"
  have eq: "pointerDown (Some m) s = clearStatus (clearJointExerciseGizmos (y\<lparr>hoveredJoint := None\<rparr>))"
    using assms(1-4) by (simp add: pointerDown_def Let_def y_def)
  have gy: "gizmo_view y = gizmo_view s" by (simp add: y_def)
  then have "gizmo_inv y" using assms(5) gizmo_inv_cong by blast
  then have "gizmo_view (clearJointExerciseGizmos y) = (None, None, [], hoveredJoint y)"
    by (rule clear_gizmo_view)
  then have "planeRotationGizmo (clearJointExerciseGizmos y) = None"
    "planePositionGizmo (clearJointExerciseGizmos y) = None"
    "liveGizmos (clearJointExerciseGizmos y) = []"
    by (simp_all add: gizmo_view_eq_iff)
  then show "gizmo_view (pointerDown (Some m) s) = (None, None, [], None)"
    by (simp add: eq clear_hovered)
  show "statusText (pointerDown (Some m) s) = map_option (\<lambda>_. EmptyText) (statusText s)"
    by (simp add: eq y_def clear_hovered option.map_comp comp_def clearStatus_def)
qed

lemma pointerDown_same:
  assumes "scene s" "camera s \<noteq> None" "currentRobot s = Some r"
    and "fst (findJoint m r) = Some j" and "same_object j (hoveredJoint s)"
  shows "gizmo_view (pointerDown (Some m) s) = gizmo_view s"
  using assms by (simp add: pointerDown_def Let_def emit_def clearStatus_def gizmo_view_def)

lemma pointerDown_new:
  assumes "scene s" "camera s \<noteq> None" "currentRobot s = Some r"
    and "fst (findJoint m r) = Some j" and "\<not> same_object j (hoveredJoint s)"
    and "gizmo_inv s"
  shows "gizmo_inv (pointerDown (Some m) s)"
    and "hoveredJoint (pointerDown (Some m) s) = Some j"
    and "manipulation_idle (pointerDown (Some m) s) \<longleftrightarrow> \<not> movable j"
proof -
  have tj: "transform j \<noteq> None" using findJoint_found [OF assms(4)] by simp
  define s3 where "s3 = emit (ConsoleLog (''Creating gizmo for joint: '' @ joint_name j))
      ((clearStatus s)\<lparr>effects := effects (clearStatus s) @ map ConsoleLog (snd (findJoint m r))\<rparr>)"
  define s4 where "s4 = (clearJointExerciseGizmos s3)\<lparr>hoveredJoint := Some j\<rparr>"
  have h3: "hoveredJoint s3 = hoveredJoint s" and g3: "gizmo_view s3 = gizmo_view s"
    by (simp_all add: s3_def emit_def clearStatus_def gizmo_view_def)
  have eq: "pointerDown (Some m) s = updateJointStatusLabel j (addExerciseGizmoToJoint j s4)"
    using assms(1-5) tj h3
    unfolding pointerDown_def Let_def s4_def s3_def
    by simp
  have "gizmo_inv s3" using g3 assms(6) gizmo_inv_cong by blast
  then have "gizmo_view (clearJointExerciseGizmos s3) = (None, None, [], hoveredJoint s3)"
    by (rule clear_gizmo_view)
  then have c4: "planeRotationGizmo s4 = None" "planePositionGizmo s4 = None" "liveGizmos s4 = []"
    "hoveredJoint s4 = Some j"
    by (simp_all add: s4_def gizmo_view_eq_iff)
  have gv: "gizmo_view (pointerDown (Some m) s) = gizmo_view (addExerciseGizmoToJoint j s4)"
    by (simp add: eq)
  show "gizmo_inv (pointerDown (Some m) s)"
    using add_on_cleared(1) [OF c4(1-3) tj] gizmo_inv_cong [OF gv] by simp
  show "hoveredJoint (pointerDown (Some m) s) = Some j"
    using add_on_cleared(3) [OF c4(1-3) tj] gizmo_view_fields [OF gv] c4(4) by simp
  show "manipulation_idle (pointerDown (Some m) s) \<longleftrightarrow> \<not> movable j"
    using add_on_cleared(2) [OF c4(1-3) tj] idle_cong [OF gv] by simp
qed

lemma pointerDown_no_pick:
  "gizmo_view (pointerDown None s) = gizmo_view s"
  by (simp add: pointerDown_def Let_def)

lemma pointerDown_no_robot:
  "currentRobot s = None \<Longrightarrow> gizmo_view (pointerDown pm s) = gizmo_view s"
  by (cases pm) (simp_all add: pointerDown_def Let_def)

subsection \<open>Reachable states\<close>

text \<open>
  Every state the controller reaches has a scene and a camera, at most one gizmo, and a hovered joint that agrees with the gizmo.
\<close>

lemma sel_inv_cong:
  "gizmo_view s' = gizmo_view s \<Longrightarrow> currentRobot s' = currentRobot s \<Longrightarrow> sel_inv s' = sel_inv s"
  using idle_cong [of s' s] gizmo_view_fields [of s' s] by (simp add: sel_inv_def)

lemma scene_inv_cong:
  assumes "scene s' = scene s" and "(camera s' = None) = (camera s = None)"
    and "gizmo_view s' = gizmo_view s" and "currentRobot s' = currentRobot s"
  shows "scene_inv s' = scene_inv s"
  using assms sel_inv_cong [OF assms(3,4)] gizmo_inv_cong [OF assms(3)]
  by (simp add: scene_inv_def)

lemma camera_kept:
  "(camera (frameModel l s) = None) = (camera s = None)"
  "(camera (resetCamera l s) = None) = (camera s = None)"
  "camera (onMeshProgress k ev s) = camera s"
  "camera (onMeshComplete k s) = camera s"
  "camera (setLoadProgressCallback s) = camera s"
  by (simp_all add: frameModel_def resetCamera_def Let_def onMeshProgress_eq onMeshComplete_eq
      setLoadProgressCallback_def split: option.splits)

lemma camera_fireTimer: "(camera (fireTimer l i s) = None) = (camera s = None)"
  by (simp add: fireTimer_def runTask_def emit_def frameModel_def Let_def
      split: Task.splits option.splits)

lemma mesh_event_fields [simp]:
  "scene (onMeshProgress k ev s) = scene s" "currentRobot (onMeshProgress k ev s) = currentRobot s"
  "scene (onMeshComplete k s) = scene s" "currentRobot (onMeshComplete k s) = currentRobot s"
  "scene (setLoadProgressCallback s) = scene s"
  "currentRobot (setLoadProgressCallback s) = currentRobot s"
  by (simp_all add: onMeshProgress_eq onMeshComplete_eq setLoadProgressCallback_def)

lemma scene_inv_pointerDown:
  assumes "scene_inv s"
  shows "scene_inv (pointerDown pm s)"
proof -
  have sc: "scene s" "camera s \<noteq> None" "gizmo_inv s" "sel_inv s"
    using assms by (simp_all add: scene_inv_def)
  have keep: "scene (pointerDown pm s) = scene s" "camera (pointerDown pm s) = camera s"
    "currentRobot (pointerDown pm s) = currentRobot s"
    using pointerDown_fields [of pm s] by simp_all
  have same: "scene_inv (pointerDown pm s)" if "gizmo_view (pointerDown pm s) = gizmo_view s"
    using scene_inv_cong [of "pointerDown pm s" s] keep that assms by simp
  show ?thesis
  proof (cases pm)
    case None
    then show ?thesis using same pointerDown_no_pick by simp
  next
    case (Some m)
    show ?thesis
    proof (cases "currentRobot s")
      case None
      then show ?thesis using same pointerDown_no_robot by simp
    next
      case r: (Some r)
      have dist: "distinct (joint_objects r)" using assms r by (simp add: scene_inv_def)
      show ?thesis
      proof (cases "fst (findJoint m r)")
        case None
        from pointerDown_unresolved(1) [OF sc(1,2) r None sc(3)]
        have "gizmo_inv (pointerDown (Some m) s)" "hoveredJoint (pointerDown (Some m) s) = None"
          by (simp_all add: gizmo_view_eq_iff gizmo_inv_def)
        then show ?thesis
          using Some keep sc(1,2) r dist by (simp add: scene_inv_def sel_inv_def)
      next
        case j: (Some j)
        show ?thesis
        proof (cases "same_object j (hoveredJoint s)")
          case True
          then show ?thesis
            using same pointerDown_same [OF sc(1,2) r j] Some by simp
        next
          case False
          note n = pointerDown_new [OF sc(1,2) r j False sc(3)]
          have "j \<in> snd ` set (joints r)" "transform j \<noteq> None"
            using findJoint_found [OF j] by simp_all
          then have "sel_inv (pointerDown (Some m) s)"
            using n(2,3) keep(3) r Some by (simp add: sel_inv_def)
          then show ?thesis
            using Some keep sc(1,2) r dist n(1) by (simp add: scene_inv_def)
        qed
      qed
    qed
  qed
qed

lemma scene_inv_applyURDF:
  assumes "scene_inv s" and "\<forall>r. d u = Inr r \<longrightarrow> fresh_robot s r"
  shows "scene_inv (applyURDF d u v s)"
proof -
  have sc: "scene s" "camera s \<noteq> None" "gizmo_inv s"
    using assms(1) by (simp_all add: scene_inv_def)
  have gv: "gizmo_view (applyURDF d u v s) = (None, None, [], hoveredJoint s)"
    using clear_gizmo_view [OF sc(3)] by (simp add: gizmo_view_applyURDF)
  then have g: "gizmo_inv (applyURDF d u v s)" "hoveredJoint (applyURDF d u v s) = hoveredJoint s"
    by (simp_all add: gizmo_view_eq_iff gizmo_inv_def)
  have cr: "currentRobot (applyURDF d u v s) = (case d u of Inl m \<Rightarrow> None | Inr r \<Rightarrow> Some r)"
    using sc(1) by (rule applyURDF_resets(6))
  have "sel_inv (applyURDF d u v s)"
    using assms(2) g(2) cr by (auto simp: sel_inv_def fresh_robot_def split: sum.splits)
  moreover have "\<forall>r. currentRobot (applyURDF d u v s) = Some r \<longrightarrow> distinct (joint_objects r)"
    using assms(2) cr by (auto simp: fresh_robot_def split: sum.splits)
  ultimately show ?thesis
    using sc g(1) by (simp add: scene_inv_def)
qed

lemma scene_inv_event:
  assumes "scene_inv s" and "\<not> is_apply e"
  shows "scene_inv (step l d e s)"
proof (cases e)
  case (ApplyURDF u v)
  then show ?thesis using assms(2) by simp
next
  case (MeshProgress k ev)
  then show ?thesis
    using assms(1) scene_inv_cong [of "onMeshProgress k ev s" s] by (simp add: camera_kept)
next
  case (MeshComplete k)
  then show ?thesis
    using assms(1) scene_inv_cong [of "onMeshComplete k s" s] by (simp add: camera_kept)
next
  case (PointerDown pm)
  then show ?thesis using assms(1) by (simp add: scene_inv_pointerDown)
next
  case (FireTimer i)
  then show ?thesis
    using assms(1) scene_inv_cong [of "fireTimer l i s" s] by (simp add: camera_fireTimer)
next
  case ResetCamera
  then show ?thesis
    using assms(1) scene_inv_cong [of "resetCamera l s" s] by (simp add: camera_kept)
next
  case SetLoadProgressCallback
  then show ?thesis
    using assms(1) scene_inv_cong [of "setLoadProgressCallback s" s] by (simp add: camera_kept)
qed

lemma scene_inv_created: "scene_inv (createScene l (newRobotScene l))"
  by (simp add: scene_inv_def createScene_def newRobotScene_def gizmo_inv_def sel_inv_def)

lemma reachable_inv: "reachable l s \<Longrightarrow> scene_inv s"
proof (induction rule: reachable.induct)
  case created
  show ?case by (rule scene_inv_created)
next
  case (loaded s d u v)
  then show ?case by (intro scene_inv_applyURDF)
next
  case (event s e d)
  then show ?case by (intro scene_inv_event)
qed

lemma gizmo_inv_length: "gizmo_inv s \<Longrightarrow> length (liveGizmos s) \<le> 1"
  by (auto simp: gizmo_inv_def split: option.splits)

lemma same_joint:
  assumes "distinct (joint_objects r)" and "h \<in> snd ` set (joints r)" and "j \<in> snd ` set (joints r)"
    and "joint_obj h = joint_obj j"
  shows "h = j"
proof -
  obtain e1 e2 where e: "e1 \<in> set (joints r)" "snd e1 = h" "e2 \<in> set (joints r)" "snd e2 = j"
    using assms(2,3) by auto
  have "inj_on (\<lambda>e. joint_obj (snd e)) (set (joints r))"
    using assms(1) by (simp add: joint_objects_def distinct_map)
  then have "e1 = e2" using e assms(4) by (auto dest: inj_onD)
  then show ?thesis using e by simp
qed

lemma pick_attached_iff:
  assumes "scene_inv s" and "currentRobot s = Some r"
  shows "\<not> manipulation_idle (pointerDown (Some m) s)
         \<longleftrightarrow> (\<exists>j. fst (findJoint m r) = Some j \<and> movable j)"
proof -
  have sc: "scene s" "camera s \<noteq> None" "gizmo_inv s" "sel_inv s" "distinct (joint_objects r)"
    using assms by (simp_all add: scene_inv_def)
  show ?thesis
  proof (cases "fst (findJoint m r)")
    case None
    from pointerDown_unresolved(1) [OF sc(1,2) assms(2) None sc(3)]
    have "manipulation_idle (pointerDown (Some m) s)"
      by (simp add: gizmo_view_eq_iff manipulation_idle_def)
    then show ?thesis using None by simp
  next
    case j: (Some j)
    have jr: "j \<in> snd ` set (joints r)" using findJoint_found [OF j] by simp
    show ?thesis
    proof (cases "same_object j (hoveredJoint s)")
      case False
      then show ?thesis
        using pointerDown_new(3) [OF sc(1,2) assms(2) j False sc(3)] j by simp
    next
      case True
      then obtain h where h: "hoveredJoint s = Some h" "joint_obj h = joint_obj j"
        by (auto simp: same_object_def split: option.splits)
      have "joint_obj h \<in> set (joint_objects r)"
        using jr h(2) by (auto simp: joint_objects_def)
      then have hr: "h \<in> snd ` set (joints r)" and idle: "manipulation_idle s \<longleftrightarrow> \<not> movable h"
        using sc(4) h(1) assms(2) by (auto simp: sel_inv_def)
      have "h = j" using same_joint [OF sc(5) hr jr h(2)] .
      moreover have "manipulation_idle (pointerDown (Some m) s) = manipulation_idle s"
        using pointerDown_same [OF sc(1,2) assms(2) j True] by (rule idle_cong)
      ultimately show ?thesis using idle j by simp
    qed
  qed
qed

lemma arm_loaded_facts:
  "reachable l (arm_loaded l ty)"
  "currentRobot (arm_loaded l ty) = Some (arm_robot ty)"
  "manipulation_idle (arm_loaded l ty)"
proof -
  have fresh: "\<forall>r. arm_deserialize ty ''arm.urdf'' = Inr r \<longrightarrow>
                  fresh_robot (createScene l (newRobotScene l)) r"
    by (simp add: arm_deserialize_def fresh_robot_def joint_objects_def arm_robot_def
        createScene_def newRobotScene_def)
  show "reachable l (arm_loaded l ty)"
    unfolding arm_loaded_def demo_scene_def
    using reachable.loaded [where l = l and s = "createScene l (newRobotScene l)"
        and d = "arm_deserialize ty" and u = "''arm.urdf''" and v = False]
      reachable.created [of l] fresh
    by blast
  show "currentRobot (arm_loaded l ty) = Some (arm_robot ty)"
    by (simp add: arm_loaded_def applyURDF_resets demo_scene_camera arm_deserialize_def)
  have "gizmo_inv (demo_scene l)"
    by (simp add: demo_scene_def createScene_def newRobotScene_def gizmo_inv_def)
  then have "gizmo_view (arm_loaded l ty) = (None, None, [], hoveredJoint (demo_scene l))"
    unfolding arm_loaded_def gizmo_view_applyURDF by (rule clear_gizmo_view)
  then show "manipulation_idle (arm_loaded l ty)"
    by (simp add: gizmo_view_eq_iff manipulation_idle_def)
qed

subsection \<open>A call in two parts\<close>

text \<open>
  The part of a call that runs before the deserializer is awaited, and the continuation, in
  closed form; and the state after the two overlapping calls of the sample.
\<close>

lemma secondPass_general:
  "secondPass vs i s =
     s\<lparr>pendingMeshLoads := pendingMeshLoads s + int (length (filter isMeshVisual vs)),
       meshLoadProgress := foldl (\<lambda>al k. AList.update k 0 al) (meshLoadProgress s)
                             [i ..< i + length (filter isMeshVisual vs)]\<rparr>"
proof (induction vs arbitrary: s i)
  case Nil
  then show ?case by simp
next
  case (Cons v vs)
  show ?case
  proof (cases "isMeshVisual v")
    case True
    let ?n = "length (filter isMeshVisual vs)"
    have range: "[i ..< Suc (i + ?n)] = i # [Suc i ..< Suc (i + ?n)]"
      by (rule upt_conv_Cons) simp
    show ?thesis
      using True by (simp add: Cons.IH range add.assoc del: upt_Suc)
  next
    case False
    then show ?thesis by (simp add: Cons.IH)
  qed
qed

lemma applyURDF_resume_eq:
  "applyURDF_resume (Inr r) v st =
     st\<lparr>currentRobot := Some r,
        pendingMeshLoads := pendingMeshLoads st + int (meshCount r),
        totalMeshes := totalMeshes st + int (meshCount r),
        meshLoadProgress := foldl (\<lambda>al k. AList.update k 0 al) (meshLoadProgress st)
                              [0 ..< meshCount r],
        timers := timers st @ MirrorOnly
           # (if pendingMeshLoads st + int (meshCount r) = 0 \<and> \<not> hasBeenFramed st
              then [FrameThenMirror] else []),
        effects := effects st
          @ (if onProgressCallback st \<and> 0 < totalMeshes st + int (meshCount r)
             then [Progress 0 (totalMeshes st + int (meshCount r)) 0] else [])
          @ [CreateRobot r, SetTimeout MirrorOnly 50]
          @ (if pendingMeshLoads st + int (meshCount r) = 0 \<and> \<not> hasBeenFramed st
             then [SetTimeout FrameThenMirror 100] else [])
          @ (if v then [PostMessage ''trace'' ''loaded urdf''] else [])\<rparr>"
proof -
  define n where "n = meshCount r"
  define s5 where "s5 = firstPass (allVisuals r) (st\<lparr>currentRobot := Some r\<rparr>)"
  have s5: "s5 = st\<lparr>currentRobot := Some r, totalMeshes := totalMeshes st + int n\<rparr>"
    by (simp add: s5_def firstPass_eq n_def meshCount_def)
  define s6 where "s6 = (if onProgressCallback s5 \<and> totalMeshes s5 > 0
                         then emit (Progress 0 (totalMeshes s5) 0) s5 else s5)"
  define e2 where "e2 = (if onProgressCallback st \<and> 0 < totalMeshes st + int n
                         then [Progress 0 (totalMeshes st + int n) 0] else [])"
  have s6: "s6 = st\<lparr>currentRobot := Some r, totalMeshes := totalMeshes st + int n,
                     effects := effects st @ e2\<rparr>"
    by (simp add: s6_def s5 emit_def e2_def)
  define P where "P = foldl (\<lambda>al k. AList.update k 0 al) (meshLoadProgress st) [0 ..< n]"
  define s7 where "s7 = secondPass (allVisuals r) 0 s6"
  have s7: "s7 = st\<lparr>currentRobot := Some r, pendingMeshLoads := pendingMeshLoads st + int n,
        totalMeshes := totalMeshes st + int n,
        meshLoadProgress := P, effects := effects st @ e2\<rparr>"
    by (simp add: s7_def secondPass_general s6 n_def meshCount_def P_def)
  define s9 where "s9 = setTimeout MirrorOnly 50 (emit (CreateRobot r) s7)"
  have s9: "s9 = st\<lparr>currentRobot := Some r, pendingMeshLoads := pendingMeshLoads st + int n,
        totalMeshes := totalMeshes st + int n, meshLoadProgress := P,
        timers := timers st @ [MirrorOnly],
        effects := effects st @ e2 @ [CreateRobot r, SetTimeout MirrorOnly 50]\<rparr>"
    by (simp add: s9_def s7 emit_def setTimeout_def)
  define f where "f = (pendingMeshLoads st + int n = 0 \<and> \<not> hasBeenFramed st)"
  define s10 where "s10 = (if pendingMeshLoads s9 = 0 \<and> \<not> hasBeenFramed s9
                           then setTimeout FrameThenMirror 100 s9 else s9)"
  have s10: "s10 = st\<lparr>currentRobot := Some r, pendingMeshLoads := pendingMeshLoads st + int n,
        totalMeshes := totalMeshes st + int n, meshLoadProgress := P,
        timers := timers st @ MirrorOnly # (if f then [FrameThenMirror] else []),
        effects := effects st @ e2 @ [CreateRobot r, SetTimeout MirrorOnly 50]
            @ (if f then [SetTimeout FrameThenMirror 100] else [])\<rparr>"
    by (simp add: s10_def s9 setTimeout_def f_def)
  have "applyURDF_resume (Inr r) v st = trace_message v ''loaded urdf'' s10"
    unfolding applyURDF_resume_def Let_def s10_def s9_def s7_def s6_def s5_def
    by simp
  also have "\<dots> = st\<lparr>currentRobot := Some r, pendingMeshLoads := pendingMeshLoads st + int n,
        totalMeshes := totalMeshes st + int n, meshLoadProgress := P,
        timers := timers st @ MirrorOnly # (if f then [FrameThenMirror] else []),
        effects := effects st @ e2 @ [CreateRobot r, SetTimeout MirrorOnly 50]
            @ (if f then [SetTimeout FrameThenMirror 100] else [])
            @ (if v then [PostMessage ''trace'' ''loaded urdf''] else [])\<rparr>"
    by (simp add: s10 trace_message_def emit_def)
  finally show ?thesis by (simp add: n_def e2_def f_def P_def)
qed

lemma applyURDF_begin_scene:
  assumes "scene s"
  shows "applyURDF_begin u v s =
     (clearStatus (clearJointExerciseGizmos s))
       \<lparr>currentURDF := Some u, currentRobot := None, hasBeenFramed := False,
        pendingMeshLoads := 0, totalMeshes := 0, loadedMeshes := 0, meshLoadProgress := [],
        effects := effects s
           @ (case currentRobot s of None \<Rightarrow> [] | Some R \<Rightarrow> [DisposeRobot R])
           @ (if v then [PostMessage ''trace'' ''loading urdf''] else [])\<rparr>"
proof -
  define c where "c = clearStatus (clearJointExerciseGizmos s)"
  have cf: "currentRobot c = currentRobot s" "effects c = effects s" "scene c"
    using assms(1) by (simp_all add: c_def)
  show ?thesis
    using cf(3)
    unfolding applyURDF_begin_def Let_def applyURDF_prefix c_def [symmetric]
    by (simp add: cf)
qed

lemma overlapped_scene_fields:
  "currentRobot overlapped_scene = Some mixed_robot"
  "totalMeshes overlapped_scene = 3" "pendingMeshLoads overlapped_scene = 3"
  "loadedMeshes overlapped_scene = 0"
  "meshLoadProgress overlapped_scene = [(0, 0), (1, 0)]"
  "effects overlapped_scene =
     [CreateRobot two_mesh_robot, SetTimeout MirrorOnly 50,
      CreateRobot mixed_robot, SetTimeout MirrorOnly 50]"
proof -
  define a where "a = applyURDF_begin ''two_mesh.urdf'' False (demo_scene SecondListing)"
  have a: "scene a" "currentRobot a = None" "effects a = []"
    by (simp_all add: a_def applyURDF_begin_scene demo_scene_camera demo_scene_fields)
  define b where "b = applyURDF_begin ''mixed.urdf'' False a"
  have b: "totalMeshes b = 0" "pendingMeshLoads b = 0" "loadedMeshes b = 0"
    "meshLoadProgress b = []" "effects b = []" "\<not> hasBeenFramed b" "\<not> onProgressCallback b"
    by (simp_all add: b_def applyURDF_begin_scene a)
       (simp_all add: a_def applyURDF_begin_scene demo_scene_camera demo_scene_fields)
  have d: "demo_deserialize ''two_mesh.urdf'' = Inr two_mesh_robot"
    "demo_deserialize ''mixed.urdf'' = Inr mixed_robot"
    by (simp_all add: demo_deserialize_def)
  have o: "overlapped_scene = applyURDF_resume (Inr mixed_robot) False
             (applyURDF_resume (Inr two_mesh_robot) False b)"
    by (simp add: overlapped_scene_def b_def a_def d)
  have u: "[0..<2] = [0, 1]" by (simp add: upt_rec)
  show "currentRobot overlapped_scene = Some mixed_robot"
    "totalMeshes overlapped_scene = 3" "pendingMeshLoads overlapped_scene = 3"
    "loadedMeshes overlapped_scene = 0"
    "meshLoadProgress overlapped_scene = [(0, 0), (1, 0)]"
    "effects overlapped_scene =
     [CreateRobot two_mesh_robot, SetTimeout MirrorOnly 50,
      CreateRobot mixed_robot, SetTimeout MirrorOnly 50]"
    by (simp_all add: o applyURDF_resume_eq b sample_meshCount u)
qed

lemma applyURDF_begin_no_scene:
  assumes "\<not> scene s"
  shows "applyURDF_begin u v s =
     (clearStatus (clearJointExerciseGizmos s))
       \<lparr>currentRobot := None,
        effects := effects s
           @ (case currentRobot s of None \<Rightarrow> [] | Some R \<Rightarrow> [DisposeRobot R])
           @ (if v then [PostMessage ''trace'' ''loading urdf'', PostMessage ''trace'' ''loaded urdf'']
              else [])\<rparr>"
  using applyURDF_no_scene [OF assms, of "\<lambda>t. Inl []" u v] assms by (simp add: applyURDF_def)

subsection \<open>The camera\<close>

lemma getViewMatrix_fields [simp]:
  "cam_alpha (getViewMatrix c) = cam_alpha c" "cam_beta (getViewMatrix c) = cam_beta c"
  "cam_radius (getViewMatrix c) = cam_radius c" "cam_target (getViewMatrix c) = cam_target c"
  by (simp_all add: getViewMatrix_def Let_def)

lemma newArcRotateCamera_fields [simp]:
  "cam_alpha (newArcRotateCamera a b r t) = a" "cam_beta (newArcRotateCamera a b r t) = b"
  "cam_radius (newArcRotateCamera a b r t) = r" "cam_target (newArcRotateCamera a b r t) = t"
  by (simp_all add: newArcRotateCamera_def)



section \<open>C1: a failed load\<close>

text \<open>
  Claim C1 says that a load whose deserialization fails leaves the previous robot in place.
  The code does otherwise: \<open>applyURDF\<close> detaches and disposes the current robot before it
  parses, so after a failed parse \<open>currentRobot\<close> is undefined. What holds: for every scene
  with a loaded robot R and every text whose deserialization throws, \<open>applyURDF\<close> disposes
  R, reports the error (to the console, or to the host as an error message) and leaves
  \<open>currentRobot\<close> undefined.
\<close>

theorem C1_failed_load_clears_robot:
  assumes "scene s" and "currentRobot s = Some R" and "deserializeUrdfToRobot urdfText = Inl msg"
  shows "currentRobot (applyURDF deserializeUrdfToRobot urdfText vscode s) = None
       \<and> effects (applyURDF deserializeUrdfToRobot urdfText vscode s) =
           effects s @ [DisposeRobot R]
             @ (if vscode then [PostMessage ''trace'' ''loading urdf'', PostMessage ''error'' msg]
                else [ConsoleError (''Error loading urdf: '' @ msg)])"
proof -
  let ?s1 = "clearStatus (clearJointExerciseGizmos s)"
  have r: "currentRobot ?s1 = Some R" and e: "effects ?s1 = effects s" and sc: "scene ?s1"
    using assms by simp_all
  show ?thesis
    using r e sc assms(3)
    by (simp add: applyURDF_unfold Let_def trace_message_def reportError_def emit_def)
qed

theorem C1_failed_load_clears_robot_witness:
  "currentRobot (applyURDF demo_deserialize ''<robot/>'' False (loaded_scene SecondListing)) = None
   \<and> effects (applyURDF demo_deserialize ''<robot/>'' False (loaded_scene SecondListing)) =
       effects (loaded_scene SecondListing) @ [DisposeRobot primitive_robot]
         @ [ConsoleError ''Error loading urdf: URDF has no links'']"
  using C1_failed_load_clears_robot [of "loaded_scene SecondListing" primitive_robot
          demo_deserialize "''<robot/>''" "''URDF has no links''" False]
  by (simp add: loaded_scene_facts demo_deserialize_def)

text \<open>The claim as stated fails for the sample scene and the text \<open><robot/>\<close>.\<close>

theorem C1_counterexample:
  "currentRobot (loaded_scene SecondListing) = Some primitive_robot
   \<and> demo_deserialize ''<robot/>'' = Inl ''URDF has no links''
   \<and> currentRobot (applyURDF demo_deserialize ''<robot/>'' False (loaded_scene SecondListing))
        \<noteq> Some primitive_robot"
proof -
  have "currentRobot (applyURDF demo_deserialize ''<robot/>'' False (loaded_scene SecondListing)) = None"
    by (simp add: applyURDF_unfold Let_def loaded_scene_facts demo_deserialize_def trace_message_def
        reportError_def emit_def)
  then show ?thesis
    by (simp add: loaded_scene_facts demo_deserialize_def)
qed

section \<open>C2: the manipulator chosen for a movable joint\<close>

text \<open>
  Claim C2. For a Revolute or Continuous joint (with a transform, as every joint the pointer
  handler selects has), \<open>addExerciseGizmoToJoint\<close> attaches one rotation manipulator and
  leaves the position manipulator alone. The manipulator is chosen by testing the y component
  of the axis first, then z, otherwise x; the test is "absolute value above 0.5", and the
  three outcomes are green (y), blue (z) and red (x). So (0,0.9,0.1) gives the y manipulator,
  (0.1,0.1,0.9) the z one, (0.9,0.1,0.1) the x one (red) and (0.6,0.6,0.6) the y one. A
  Prismatic joint gets a position manipulator by the same tests in the same order.
\<close>

theorem C2_dominant_axis_precedence:
  assumes "transform joint = Some t"
  shows "(joint_type joint = Revolute \<or> joint_type joint = Continuous \<longrightarrow>
            planeRotationGizmo (addExerciseGizmoToJoint joint s) =
              Some \<lparr>rot_joint = joint,
                    rot_color = (if \<bar>vec_y (axis joint)\<bar> > 0.5 then Green
                                 else if \<bar>vec_z (axis joint)\<bar> > 0.5 then Blue else Red),
                    rot_scaleRatio = 0.75, rot_attachedNode = Some t,
                    enableLimits = (joint_type joint \<noteq> Continuous)\<rparr>
            \<and> planePositionGizmo (addExerciseGizmoToJoint joint s) = planePositionGizmo s)
       \<and> (joint_type joint = Prismatic \<longrightarrow>
            planePositionGizmo (addExerciseGizmoToJoint joint s) =
              Some \<lparr>pos_joint = joint,
                    pos_color = (if \<bar>vec_y (axis joint)\<bar> > 0.5 then Blue
                                 else if \<bar>vec_z (axis joint)\<bar> > 0.5 then Red else Green),
                    pos_scaleRatio = 0.75, pos_attachedNode = Some t\<rparr>
            \<and> planeRotationGizmo (addExerciseGizmoToJoint joint s) = planeRotationGizmo s)
       \<and> (axis joint = Vector3 0 0.9 0.1 \<and> joint_type joint = Revolute \<longrightarrow>
            map_option rot_color (planeRotationGizmo (addExerciseGizmoToJoint joint s)) = Some Green)
       \<and> (axis joint = Vector3 0.1 0.1 0.9 \<and> joint_type joint = Revolute \<longrightarrow>
            map_option rot_color (planeRotationGizmo (addExerciseGizmoToJoint joint s)) = Some Blue)
       \<and> (axis joint = Vector3 0.9 0.1 0.1 \<and> joint_type joint = Revolute \<longrightarrow>
            map_option rot_color (planeRotationGizmo (addExerciseGizmoToJoint joint s)) = Some Red)
       \<and> (axis joint = Vector3 0.6 0.6 0.6 \<and> joint_type joint = Revolute \<longrightarrow>
            map_option rot_color (planeRotationGizmo (addExerciseGizmoToJoint joint s)) = Some Green)"
  using assms
  by (auto simp: addExerciseGizmoToJoint_def Let_def rotation_case_fields position_case_fields
      emit_def)

theorem C2_dominant_axis_precedence_witness:
  "planeRotationGizmo
     (addExerciseGizmoToJoint (demo_joint 1 Revolute (Vector3 0.6 0.6 0.6)) (demo_scene FirstListing))
     = Some \<lparr>rot_joint = demo_joint 1 Revolute (Vector3 0.6 0.6 0.6), rot_color = Green,
             rot_scaleRatio = 0.75, rot_attachedNode = Some 1, enableLimits = True\<rparr>
   \<and> planePositionGizmo
     (addExerciseGizmoToJoint (demo_joint 2 Prismatic (Vector3 0 0 1)) (demo_scene FirstListing))
     = Some \<lparr>pos_joint = demo_joint 2 Prismatic (Vector3 0 0 1), pos_color = Red,
             pos_scaleRatio = 0.75, pos_attachedNode = Some 2\<rparr>"
  using C2_dominant_axis_precedence
          [of "demo_joint 1 Revolute (Vector3 0.6 0.6 0.6)" 1 "demo_scene FirstListing"]
        C2_dominant_axis_precedence
          [of "demo_joint 2 Prismatic (Vector3 0 0 1)" 2 "demo_scene FirstListing"]
  by (simp add: demo_joint_def)
section \<open>C3: when the camera is framed\<close>



section \<open>C4: aggregated progress\<close>

text \<open>
  Claim C4. With a callback registered and \<open>totalMeshes > 0\<close>, every progress event of a
  mesh stores that mesh's percentage and reports \<open>(loadedMeshes, totalMeshes, progress)\<close>,
  where progress is the sum of the table's entries divided by \<open>totalMeshes\<close>; an entry
  computed from an event with \<open>0 \<le> loaded \<le> total\<close> lies between 0 and 100. A completion
  event sets the mesh's entry to 100, increments \<open>loadedMeshes\<close>, decrements
  \<open>pendingMeshLoads\<close> and reports again. After a load of a robot with \<open>n > 0\<close> meshes,
  once every mesh has completed (in any order, with progress events of a mesh only before
  its completion), the last report is \<open>(n, n, 100)\<close>.
\<close>

theorem C4_progress_aggregation:
  "(onProgressCallback s \<and> 0 < totalMeshes s \<longrightarrow>
      meshLoadProgress (onMeshProgress k ev s) =
        AList.update k (if lengthComputable ev \<and> 0 < ev_total ev
                        then ev_loaded ev / ev_total ev * 100 else 0) (meshLoadProgress s)
      \<and> effects (onMeshProgress k ev s) =
          effects s @ [Progress (loadedMeshes s) (totalMeshes s)
                         (sum_list (map snd (meshLoadProgress (onMeshProgress k ev s)))
                          / real_of_int (totalMeshes s))])
   \<and> (onProgressCallback s \<and> 0 < totalMeshes s \<longrightarrow>
      meshLoadProgress (onMeshComplete k s) = AList.update k 100 (meshLoadProgress s)
      \<and> loadedMeshes (onMeshComplete k s) = loadedMeshes s + 1
      \<and> pendingMeshLoads (onMeshComplete k s) = pendingMeshLoads s - 1
      \<and> emissions (effects (onMeshComplete k s)) =
          emissions (effects s)
            @ [(loadedMeshes s + 1, totalMeshes s,
                sum_list (map snd (meshLoadProgress (onMeshComplete k s)))
                / real_of_int (totalMeshes s))])
   \<and> (0 \<le> ev_loaded ev \<and> ev_loaded ev \<le> ev_total ev \<longrightarrow>
        map_of (meshLoadProgress (onMeshProgress k ev s)) k \<in> Some ` {0 .. 100})
   \<and> (scene s \<and> onProgressCallback s \<and> d u = Inr r \<and> 0 < meshCount r
        \<and> load_trace (meshCount r) [] evs \<longrightarrow>
        emissions (effects (run l d evs (applyURDF d u v s))) \<noteq> []
        \<and> last (emissions (effects (run l d evs (applyURDF d u v s))))
            = (int (meshCount r), int (meshCount r), 100))"
proof (intro conjI impI)
  assume a: "0 \<le> ev_loaded ev \<and> ev_loaded ev \<le> ev_total ev"
  let ?p = "if lengthComputable ev \<and> 0 < ev_total ev then ev_loaded ev / ev_total ev * 100 else 0"
  have "0 \<le> ?p \<and> ?p \<le> 100"
    using a by (simp add: divide_le_eq)
  moreover have "map_of (meshLoadProgress (onMeshProgress k ev s)) k = Some ?p"
    by (simp add: onMeshProgress_eq update_conv')
  ultimately show "map_of (meshLoadProgress (onMeshProgress k ev s)) k \<in> Some ` {0 .. 100}"
    by (metis atLeastAtMost_iff imageI)
next
  assume a: "scene s \<and> onProgressCallback s \<and> d u = Inr r \<and> 0 < meshCount r
        \<and> load_trace (meshCount r) [] evs"
  then have tr: "load_trace (meshCount r) [] evs" and pos: "0 < meshCount r" by simp_all
  have init: "load_inv (meshCount r) [] (applyURDF d u v s)"
    using a by (intro load_inv_initial) simp_all
  from load_inv_run [OF tr init pos, of l d]
  obtain F where F: "load_inv (meshCount r) F (run l d evs (applyURDF d u v s))"
      "\<forall>k < meshCount r. k \<in> set F"
    by blast
  show "emissions (effects (run l d evs (applyURDF d u v s))) \<noteq> []"
    using F(1) by (simp add: load_inv_def)
  show "last (emissions (effects (run l d evs (applyURDF d u v s))))
            = (int (meshCount r), int (meshCount r), 100)"
    using F a by (intro load_inv_final [where F = F]) simp_all
qed (simp_all add: onMeshProgress_eq onMeshComplete_eq)

theorem C4_progress_aggregation_witness:
  "last (emissions (effects (run SecondListing demo_deserialize
       [MeshProgress 0 \<lparr>lengthComputable = True, ev_loaded = 1, ev_total = 4\<rparr>,
        MeshComplete 1, MeshComplete 0]
       (applyURDF demo_deserialize ''two_mesh.urdf'' False
          (setLoadProgressCallback (demo_scene SecondListing)))))) = (2, 2, 100)"
proof -
  have t: "load_trace 2 []
       [MeshProgress 0 \<lparr>lengthComputable = True, ev_loaded = 1, ev_total = 4\<rparr>,
        MeshComplete 1, MeshComplete 0]"
    by (simp add: upt_rec numeral_2_eq_2)
  show ?thesis
    using C4_progress_aggregation [of "setLoadProgressCallback (demo_scene SecondListing)"
        0 "\<lparr>lengthComputable = True, ev_loaded = 1, ev_total = 4\<rparr>"
        demo_deserialize "''two_mesh.urdf''" two_mesh_robot
        "[MeshProgress 0 \<lparr>lengthComputable = True, ev_loaded = 1, ev_total = 4\<rparr>,
          MeshComplete 1, MeshComplete 0]" SecondListing False] t
    by (simp add: setLoadProgressCallback_def demo_scene_camera demo_deserialize_def
        sample_meshCount)
qed

section \<open>C5: the initial progress report\<close>

text \<open>
  Claim C5. A successful \<open>applyURDF\<close> on a scene counts the mesh visuals into
  \<open>totalMeshes\<close> and reports \<open>(0, totalMeshes, 0)\<close> once, before the robot's geometry is
  created, exactly when a progress callback is registered and the count is positive;
  otherwise it reports nothing. With no callback registered (and none registered later) no
  sequence of loads, mesh events, timers and picks produces any progress report.
\<close>

theorem C5_initial_progress_event:
  "(scene s \<and> d u = Inr r \<longrightarrow>
      totalMeshes (applyURDF d u v s) = int (meshCount r)
      \<and> effects (applyURDF d u v s) =
          effects s
            @ (case currentRobot s of None \<Rightarrow> [] | Some R \<Rightarrow> [DisposeRobot R])
            @ (if v then [PostMessage ''trace'' ''loading urdf''] else [])
            @ (if onProgressCallback s \<and> 0 < meshCount r
               then [Progress 0 (int (meshCount r)) 0] else [])
            @ [CreateRobot r, SetTimeout MirrorOnly 50]
            @ (if meshCount r = 0 then [SetTimeout FrameThenMirror 100] else [])
            @ (if v then [PostMessage ''trace'' ''loaded urdf''] else [])
      \<and> emissions (effects (applyURDF d u v s)) =
          emissions (effects s)
            @ (if onProgressCallback s \<and> 0 < meshCount r then [(0, int (meshCount r), 0)] else []))
   \<and> (\<not> onProgressCallback s \<and> SetLoadProgressCallback \<notin> set evs \<longrightarrow>
        emissions (effects (run l d evs s)) = emissions (effects s))"
proof (intro conjI impI)
  assume a: "scene s \<and> d u = Inr r"
  then have eq: "applyURDF d u v s =
     (clearStatus (clearJointExerciseGizmos s))
       \<lparr>currentURDF := Some u, currentRobot := Some r, hasBeenFramed := False,
        pendingMeshLoads := int (meshCount r), totalMeshes := int (meshCount r),
        loadedMeshes := 0, meshLoadProgress := map (\<lambda>k. (k, 0)) [0 ..< meshCount r],
        timers := timers s @ MirrorOnly # (if meshCount r = 0 then [FrameThenMirror] else []),
        effects := effects s @ load_effects v s r\<rparr>"
    by (intro applyURDF_success) simp_all
  show "totalMeshes (applyURDF d u v s) = int (meshCount r)"
    by (simp add: eq)
  show "effects (applyURDF d u v s) =
          effects s
            @ (case currentRobot s of None \<Rightarrow> [] | Some R \<Rightarrow> [DisposeRobot R])
            @ (if v then [PostMessage ''trace'' ''loading urdf''] else [])
            @ (if onProgressCallback s \<and> 0 < meshCount r
               then [Progress 0 (int (meshCount r)) 0] else [])
            @ [CreateRobot r, SetTimeout MirrorOnly 50]
            @ (if meshCount r = 0 then [SetTimeout FrameThenMirror 100] else [])
            @ (if v then [PostMessage ''trace'' ''loaded urdf''] else [])"
    by (simp add: eq load_effects_def)
  show "emissions (effects (applyURDF d u v s)) =
          emissions (effects s)
            @ (if onProgressCallback s \<and> 0 < meshCount r then [(0, int (meshCount r), 0)] else [])"
    using a by (simp add: applyURDF_emissions)
next
  assume "\<not> onProgressCallback s \<and> SetLoadProgressCallback \<notin> set evs"
  then show "emissions (effects (run l d evs s)) = emissions (effects s)"
    using run_silent [of s evs l d] by simp
qed

theorem C5_initial_progress_event_witness:
  "effects (applyURDF demo_deserialize ''two_mesh.urdf'' False
              (setLoadProgressCallback (demo_scene SecondListing))) =
     [Progress 0 2 0, CreateRobot two_mesh_robot, SetTimeout MirrorOnly 50]
   \<and> emissions (effects (run SecondListing demo_deserialize
        [ApplyURDF ''two_mesh.urdf'' False, MeshComplete 0, MeshComplete 1]
        (demo_scene SecondListing))) = []"
proof -
  have 1: "effects (applyURDF demo_deserialize ''two_mesh.urdf'' False
              (setLoadProgressCallback (demo_scene SecondListing))) =
     [Progress 0 2 0, CreateRobot two_mesh_robot, SetTimeout MirrorOnly 50]"
    using C5_initial_progress_event [of "setLoadProgressCallback (demo_scene SecondListing)"
        demo_deserialize "''two_mesh.urdf''" two_mesh_robot False "[]" SecondListing]
    by (simp add: demo_scene_camera demo_scene_fields setLoadProgressCallback_def
        demo_deserialize_def sample_meshCount)
  have 2: "emissions (effects (run SecondListing demo_deserialize
        [ApplyURDF ''two_mesh.urdf'' False, MeshComplete 0, MeshComplete 1]
        (demo_scene SecondListing))) = []"
    using C5_initial_progress_event [of "demo_scene SecondListing"
        demo_deserialize "''two_mesh.urdf''" two_mesh_robot False
        "[ApplyURDF ''two_mesh.urdf'' False, MeshComplete 0, MeshComplete 1]" SecondListing]
    by (simp add: demo_scene_fields)
  show ?thesis using 1 2 by simp
qed

section \<open>C6: loading again while a load is in flight\<close>

text \<open>
  Claim C6 says that a new call invalidates the previous robot at once and that completion
  callbacks of the superseded robot's meshes are no-ops on the new load. A call disposes the
  robot that is installed in \<open>currentRobot\<close>; the robot of an earlier call that is still
  suspended in its deserialization is not installed yet, and is installed and counted when that
  call continues. The callbacks that \<open>applyURDF\<close> registers hold only the scene and the key;
  they do not look at the robot that registered them. What holds: before it awaits the
  deserializer, \<open>applyURDF\<close> disposes the robot installed in \<open>currentRobot\<close> (it is the
  first effect of the call) and detaches it, and on a scene sets \<open>totalMeshes\<close>,
  \<open>loadedMeshes\<close> and \<open>pendingMeshLoads\<close> to zero, empties the progress table and clears
  \<open>hasBeenFramed\<close>; when the call then continues before anything else runs, the new load
  starts from \<open>loadedMeshes = 0\<close>, \<open>hasBeenFramed = false\<close>, and \<open>totalMeshes\<close>,
  \<open>pendingMeshLoads\<close> and the progress table set for the new robot's meshes (all zero or
  empty when the text is rejected); a completion callback that arrives afterwards, whichever
  robot registered it, decrements \<open>pendingMeshLoads\<close>, increments \<open>loadedMeshes\<close> and sets
  the entry of its key to 100.
\<close>

theorem C6_reload_resets_aggregator:
  "(currentRobot s = Some R \<longrightarrow>
      take (Suc (length (effects s))) (effects (applyURDF_begin u v s)) = effects s @ [DisposeRobot R])
   \<and> currentRobot (applyURDF_begin u v s) = None
   \<and> (scene s \<longrightarrow>
        totalMeshes (applyURDF_begin u v s) = 0 \<and> loadedMeshes (applyURDF_begin u v s) = 0
        \<and> pendingMeshLoads (applyURDF_begin u v s) = 0
        \<and> meshLoadProgress (applyURDF_begin u v s) = []
        \<and> \<not> hasBeenFramed (applyURDF_begin u v s))
   \<and> (scene s \<longrightarrow>
        currentRobot (applyURDF d u v s) = (case d u of Inl m \<Rightarrow> None | Inr r \<Rightarrow> Some r)
        \<and> totalMeshes (applyURDF d u v s) = (case d u of Inl m \<Rightarrow> 0 | Inr r \<Rightarrow> int (meshCount r))
        \<and> pendingMeshLoads (applyURDF d u v s)
            = (case d u of Inl m \<Rightarrow> 0 | Inr r \<Rightarrow> int (meshCount r))
        \<and> loadedMeshes (applyURDF d u v s) = 0
        \<and> meshLoadProgress (applyURDF d u v s)
            = (case d u of Inl m \<Rightarrow> [] | Inr r \<Rightarrow> map (\<lambda>k. (k, 0)) [0 ..< meshCount r])
        \<and> \<not> hasBeenFramed (applyURDF d u v s))
   \<and> (\<not> scene s \<longrightarrow> currentRobot (applyURDF d u v s) = None)
   \<and> pendingMeshLoads (onMeshComplete k st) = pendingMeshLoads st - 1
   \<and> loadedMeshes (onMeshComplete k st) = loadedMeshes st + 1
   \<and> map_of (meshLoadProgress (onMeshComplete k st)) k = Some 100"
proof (intro conjI impI)
  assume R: "currentRobot s = Some R"
  have "\<exists>rest. effects (applyURDF_begin u v s) = effects s @ DisposeRobot R # rest"
    using R by (cases "scene s") (simp_all add: applyURDF_begin_scene applyURDF_begin_no_scene)
  then obtain rest where "effects (applyURDF_begin u v s) = effects s @ DisposeRobot R # rest" ..
  then show "take (Suc (length (effects s))) (effects (applyURDF_begin u v s))
             = effects s @ [DisposeRobot R]"
    by simp
next
  show "currentRobot (applyURDF_begin u v s) = None"
    by (cases "scene s") (simp_all add: applyURDF_begin_scene applyURDF_begin_no_scene)
next
  assume "\<not> scene s"
  then show "currentRobot (applyURDF d u v s) = None"
    by (simp add: applyURDF_no_scene)
qed (simp_all add: applyURDF_resets applyURDF_begin_scene onMeshComplete_eq update_conv')

theorem C6_reload_resets_aggregator_witness:
  "take (Suc (length (effects (applyURDF demo_deserialize ''two_mesh.urdf'' False
                                 (demo_scene SecondListing)))))
        (effects (applyURDF_begin ''mixed.urdf'' False
                   (applyURDF demo_deserialize ''two_mesh.urdf'' False (demo_scene SecondListing))))
     = effects (applyURDF demo_deserialize ''two_mesh.urdf'' False (demo_scene SecondListing))
         @ [DisposeRobot two_mesh_robot]
   \<and> totalMeshes (applyURDF_begin ''mixed.urdf'' False
        (applyURDF demo_deserialize ''two_mesh.urdf'' False (demo_scene SecondListing))) = 0
   \<and> pendingMeshLoads (applyURDF_begin ''mixed.urdf'' False
        (applyURDF demo_deserialize ''two_mesh.urdf'' False (demo_scene SecondListing))) = 0
   \<and> currentRobot reloaded_scene = Some mixed_robot
   \<and> totalMeshes reloaded_scene = 1 \<and> pendingMeshLoads reloaded_scene = 1
   \<and> loadedMeshes reloaded_scene = 0 \<and> meshLoadProgress reloaded_scene = [(0, 0)]
   \<and> \<not> hasBeenFramed reloaded_scene"
proof -
  define s1 where "s1 = applyURDF demo_deserialize ''two_mesh.urdf'' False (demo_scene SecondListing)"
  have f1: "scene s1" "currentRobot s1 = Some two_mesh_robot"
    by (simp_all add: s1_def demo_scene_camera applyURDF_resets)
  have r: "reloaded_scene = applyURDF demo_deserialize ''mixed.urdf'' False s1"
    by (simp add: reloaded_scene_def run_def s1_def)
  have m: "demo_deserialize ''mixed.urdf'' = Inr mixed_robot"
    by (simp add: demo_deserialize_def)
  show ?thesis
    unfolding r s1_def [symmetric]
    using C6_reload_resets_aggregator [of s1 two_mesh_robot "''mixed.urdf''" False
        demo_deserialize 0 s1] f1
    by (simp add: sample_meshCount m)
qed

text \<open>
  After a reload with a one-mesh robot, the completion of the old robot's second mesh
  (key 1) brings the new load's pending count to zero and counts as a loaded mesh. And when
  the second call is made while the first is suspended in its deserialization, the first
  robot is created and never disposed, and the counters add up the meshes of both robots.
\<close>

theorem C6_counterexample:
  "currentRobot reloaded_scene = Some mixed_robot
   \<and> pendingMeshLoads reloaded_scene = 1 \<and> loadedMeshes reloaded_scene = 0
   \<and> pendingMeshLoads (onMeshComplete 1 reloaded_scene) = 0
   \<and> loadedMeshes (onMeshComplete 1 reloaded_scene) = 1
   \<and> meshLoadProgress (onMeshComplete 1 reloaded_scene) = [(0, 0), (1, 100)]
   \<and> currentRobot overlapped_scene = Some mixed_robot
   \<and> meshCount mixed_robot = 1
   \<and> totalMeshes overlapped_scene = 3 \<and> pendingMeshLoads overlapped_scene = 3
   \<and> effects overlapped_scene =
       [CreateRobot two_mesh_robot, SetTimeout MirrorOnly 50,
        CreateRobot mixed_robot, SetTimeout MirrorOnly 50]"
proof -
  define s1 where "s1 = applyURDF demo_deserialize ''two_mesh.urdf'' False (demo_scene SecondListing)"
  have f1: "scene s1"
    by (simp add: s1_def demo_scene_camera)
  have r: "reloaded_scene = applyURDF demo_deserialize ''mixed.urdf'' False s1"
    by (simp add: reloaded_scene_def run_def s1_def)
  have f2: "currentRobot reloaded_scene = Some mixed_robot" "pendingMeshLoads reloaded_scene = 1"
    "loadedMeshes reloaded_scene = 0" "meshLoadProgress reloaded_scene = [(0, 0)]"
    using f1 by (simp_all add: r applyURDF_resets sample_meshCount)
  show ?thesis
    using f2 by (simp add: onMeshComplete_eq overlapped_scene_fields sample_meshCount)
qed

section \<open>C7: resetting the camera\<close>




section \<open>C8: joints without a manipulator\<close>

text \<open>
  Claim C8. For a Fixed, Planar or Floating joint \<open>addExerciseGizmoToJoint\<close> attaches
  nothing: it changes the console log only. For a Fixed joint (with a transform) it logs the
  "Creating gizmo" line and returns; for a Planar or Floating joint it adds the notice that
  the joint type is not supported. The pointer handler never selects a Fixed joint; from the
  Idle state, a pick that resolves to a Planar or Floating joint (or to nothing) leaves the
  manipulation state Idle, and on a robot whose joints are all Fixed a pick from the Idle
  state with nothing hovered does nothing beyond clearing the status text.
\<close>

theorem C8_fixed_planar_floating:
  "(joint_type joint \<in> {Fixed, Planar, Floating} \<longrightarrow>
      addExerciseGizmoToJoint joint s = s\<lparr>effects := effects (addExerciseGizmoToJoint joint s)\<rparr>)
   \<and> (transform joint \<noteq> None \<and> joint_type joint = Fixed \<longrightarrow>
        effects (addExerciseGizmoToJoint joint s) =
          effects s @ [ConsoleLog (''Creating gizmo for joint: '' @ joint_name joint
                                    @ '', type: '' @ type_string (joint_type joint))])
   \<and> (transform joint \<noteq> None \<and> joint_type joint = Planar \<longrightarrow>
        effects (addExerciseGizmoToJoint joint s) =
          effects s @ [ConsoleLog (''Creating gizmo for joint: '' @ joint_name joint
                                    @ '', type: '' @ type_string (joint_type joint)),
                       ConsoleLog (planar_notice (joint_name joint))])
   \<and> (transform joint \<noteq> None \<and> joint_type joint = Floating \<longrightarrow>
        effects (addExerciseGizmoToJoint joint s) =
          effects s @ [ConsoleLog (''Creating gizmo for joint: '' @ joint_name joint
                                    @ '', type: '' @ type_string (joint_type joint)),
                       ConsoleLog (floating_notice (joint_name joint))])
   \<and> (\<forall>r j. fst (findJoint m r) = Some j \<longrightarrow> joint_type j \<noteq> Fixed)
   \<and> (manipulation_idle s
        \<and> (\<forall>r j. currentRobot s = Some r \<and> fst (findJoint m r) = Some j
               \<longrightarrow> joint_type j \<in> {Planar, Floating})
        \<longrightarrow> manipulation_idle (pointerDown (Some m) s))
   \<and> (scene s \<and> camera s \<noteq> None \<and> manipulation_idle s \<and> hoveredJoint s = None
        \<and> (\<exists>r. currentRobot s = Some r \<and> (\<forall>e \<in> set (joints r). joint_type (snd e) = Fixed))
        \<longrightarrow> pointerDown (Some m) s = clearStatus s)"
proof (intro conjI impI allI)
  assume "joint_type joint \<in> {Fixed, Planar, Floating}"
  then show "addExerciseGizmoToJoint joint s = s\<lparr>effects := effects (addExerciseGizmoToJoint joint s)\<rparr>"
    by (rule add_unsupported)
next
  fix r j assume "fst (findJoint m r) = Some j"
  then show "joint_type j \<noteq> Fixed" using findJoint_found by blast
next
  assume "manipulation_idle s
        \<and> (\<forall>r j. currentRobot s = Some r \<and> fst (findJoint m r) = Some j
               \<longrightarrow> joint_type j \<in> {Planar, Floating})"
  then show "manipulation_idle (pointerDown (Some m) s)"
    by (intro pointerDown_idle) blast+
next
  assume a: "scene s \<and> camera s \<noteq> None \<and> manipulation_idle s \<and> hoveredJoint s = None
        \<and> (\<exists>r. currentRobot s = Some r \<and> (\<forall>e \<in> set (joints r). joint_type (snd e) = Fixed))"
  then obtain r where "currentRobot s = Some r" "\<forall>e \<in> set (joints r). joint_type (snd e) = Fixed"
    by blast
  then show "pointerDown (Some m) s = clearStatus s"
    using a by (intro pointerDown_all_fixed [where r = r]) simp_all
qed (simp_all add: add_effects)

theorem C8_fixed_planar_floating_witness:
  "fst (findJoint (sample_mesh 40 None) (arm_robot Planar)) = Some (arm_joint Planar)
   \<and> manipulation_idle (pointerDown (Some (sample_mesh 40 None)) (arm_scene FirstListing Planar))
   \<and> pointerDown (Some (sample_mesh 40 None)) (arm_scene FirstListing Fixed)
        = clearStatus (arm_scene FirstListing Fixed)
   \<and> effects (addExerciseGizmoToJoint (arm_joint Floating) (arm_scene FirstListing Floating)) =
        [ConsoleLog ''Creating gizmo for joint: shoulder, type: floating'',
         ConsoleLog (floating_notice ''shoulder'')]"
proof -
  have 1: "manipulation_idle (pointerDown (Some (sample_mesh 40 None)) (arm_scene FirstListing Planar))"
    using C8_fixed_planar_floating [of "arm_joint Planar" "arm_scene FirstListing Planar"
        "sample_mesh 40 None"]
    by (simp add: arm_scene_facts arm_findJoint arm_joint_def)
  have 2: "pointerDown (Some (sample_mesh 40 None)) (arm_scene FirstListing Fixed)
        = clearStatus (arm_scene FirstListing Fixed)"
    using C8_fixed_planar_floating [of "arm_joint Fixed" "arm_scene FirstListing Fixed"
        "sample_mesh 40 None"]
    by (simp add: arm_scene_facts arm_robot_def arm_joint_def)
  have 3: "effects (addExerciseGizmoToJoint (arm_joint Floating) (arm_scene FirstListing Floating)) =
        [ConsoleLog ''Creating gizmo for joint: shoulder, type: floating'',
         ConsoleLog (floating_notice ''shoulder'')]"
    using C8_fixed_planar_floating [of "arm_joint Floating" "arm_scene FirstListing Floating"
        "sample_mesh 40 None"]
    by (simp add: arm_joint_def type_string_def arm_scene_def demo_scene_def createScene_def
        newRobotScene_def)
  show ?thesis using 1 2 3 by (simp add: arm_findJoint)
qed

section \<open>C9: orphan links hang under the synthetic root\<close>

text \<open>
  Claim C9, against the model of the tree builder written from the spec. A built robot has
  exactly one synthetic root transform among its transforms. Every link of the link table
  that no joint names as its child has its transform parented directly to that root. In
  particular, for two links and no joints both link transforms are children of the root and
  the joint table of the robot is empty.
\<close>

theorem C9_orphans_under_root:
  "count_list (transforms (buildTree ls js)) RootTransform = 1
   \<and> (l \<in> set ls \<and> (\<forall>e \<in> set js. childName (snd e) \<noteq> l) \<longrightarrow>
        parentOf (buildTree ls js) (LinkTransform l) = Some RootTransform)
   \<and> built_joints (buildTree [a, b] []) = []
   \<and> parentOf (buildTree [a, b] []) (LinkTransform a) = Some RootTransform
   \<and> parentOf (buildTree [a, b] []) (LinkTransform b) = Some RootTransform"
proof (intro conjI impI)
  show "count_list (transforms (buildTree ls js)) RootTransform = 1"
    by (simp add: buildTree_def count_root_links count_root_joints)
next
  assume a: "l \<in> set ls \<and> (\<forall>e \<in> set js. childName (snd e) \<noteq> l)"
  then have o: "isOrphan js l" by (simp add: isOrphan_def list_all_iff)
  have "parentOf (buildTree ls js) (LinkTransform l)
          = parentOrphans js ls (\<lambda>t. None) (LinkTransform l)"
    using o by (simp add: buildTree_def fold_wireJoint_orphan)
  then show "parentOf (buildTree ls js) (LinkTransform l) = Some RootTransform"
    using a o by (simp add: parentOrphans_orphan)
qed (simp_all add: buildTree_def parentOrphans_def isOrphan_def)

theorem C9_orphans_under_root_witness:
  "parentOf (buildTree [''base_link'', ''arm'', ''lidar'']
               [(''shoulder'', \<lparr>parentName = ''base_link'', childName = ''arm''\<rparr>)])
     (LinkTransform ''lidar'') = Some RootTransform
   \<and> parentOf (buildTree [''base_link'', ''arm'', ''lidar'']
               [(''shoulder'', \<lparr>parentName = ''base_link'', childName = ''arm''\<rparr>)])
     (LinkTransform ''arm'') = Some (JointTransform ''shoulder'')"
proof -
  have "parentOf (buildTree [''base_link'', ''arm'', ''lidar'']
               [(''shoulder'', \<lparr>parentName = ''base_link'', childName = ''arm''\<rparr>)])
     (LinkTransform ''lidar'') = Some RootTransform"
    using C9_orphans_under_root [of "[''base_link'', ''arm'', ''lidar'']"
        "[(''shoulder'', \<lparr>parentName = ''base_link'', childName = ''arm''\<rparr>)]" "''lidar''"]
    by simp
  moreover have "parentOf (buildTree [''base_link'', ''arm'', ''lidar'']
               [(''shoulder'', \<lparr>parentName = ''base_link'', childName = ''arm''\<rparr>)])
     (LinkTransform ''arm'') = Some (JointTransform ''shoulder'')"
    by (simp add: buildTree_def wireJoint_def parentOrphans_def isOrphan_def Let_def)
  ultimately show ?thesis by simp
qed

section \<open>C10: picks and the one exercise gizmo\<close>

text \<open>
  Claim C10 says that a gizmo is attached after a pick exactly if the pick resolved to a
  non-fixed joint. Planar and Floating joints are not fixed, yet \<open>addExerciseGizmoToJoint\<close>
  attaches nothing for them. What holds: for every state the controller can reach after
  \<open>createScene\<close> (loads of robots whose joints are new objects, mesh events, timers,
  picks, camera resets): at most one exercise gizmo exists; with a robot loaded, a pick that
  hits a mesh resolving to no joint (fixed joints are skipped by the search) disposes the
  attached gizmo, sets the hovered joint to undefined and clears the status text, so it
  changes the state when a gizmo was attached; and a gizmo is attached after a pick exactly
  if the pick resolved to a Revolute, Continuous or Prismatic joint.
\<close>

theorem C10_pick_and_gizmo:
  "(reachable l s \<longrightarrow> length (liveGizmos s) \<le> 1)
   \<and> (reachable l s \<and> currentRobot s = Some r \<and> fst (findJoint m r) = None \<longrightarrow>
        planeRotationGizmo (pointerDown (Some m) s) = None
        \<and> planePositionGizmo (pointerDown (Some m) s) = None
        \<and> liveGizmos (pointerDown (Some m) s) = []
        \<and> hoveredJoint (pointerDown (Some m) s) = None
        \<and> statusText (pointerDown (Some m) s) = map_option (\<lambda>_. EmptyText) (statusText s))
   \<and> (reachable l s \<and> currentRobot s = Some r \<and> fst (findJoint m r) = None
        \<and> \<not> manipulation_idle s \<longrightarrow> pointerDown (Some m) s \<noteq> s)
   \<and> (fst (findJoint m r) = Some j \<longrightarrow> joint_type j \<noteq> Fixed)
   \<and> (reachable l s \<and> currentRobot s = Some r \<longrightarrow>
        (\<not> manipulation_idle (pointerDown (Some m) s)
           \<longleftrightarrow> (\<exists>j. fst (findJoint m r) = Some j
                    \<and> (joint_type j = Revolute \<or> joint_type j = Continuous
                        \<or> joint_type j = Prismatic))))"
proof (intro conjI impI)
  assume "reachable l s"
  then have "scene_inv s" by (rule reachable_inv)
  then show "length (liveGizmos s) \<le> 1"
    by (intro gizmo_inv_length) (simp add: scene_inv_def)
next
  assume a: "reachable l s \<and> currentRobot s = Some r \<and> fst (findJoint m r) = None"
  then have inv: "scene_inv s" using reachable_inv by blast
  then have sc: "scene s" "camera s \<noteq> None" "gizmo_inv s" by (simp_all add: scene_inv_def)
  from a have r: "currentRobot s = Some r" and n: "fst (findJoint m r) = None" by simp_all
  note u = pointerDown_unresolved [OF sc(1,2) r n sc(3)]
  show "planeRotationGizmo (pointerDown (Some m) s) = None"
    and "planePositionGizmo (pointerDown (Some m) s) = None"
    and "liveGizmos (pointerDown (Some m) s) = []"
    and "hoveredJoint (pointerDown (Some m) s) = None"
    using u(1) by (simp_all add: gizmo_view_eq_iff)
  show "statusText (pointerDown (Some m) s) = map_option (\<lambda>_. EmptyText) (statusText s)"
    by (rule u(2))
next
  assume a: "reachable l s \<and> currentRobot s = Some r \<and> fst (findJoint m r) = None
        \<and> \<not> manipulation_idle s"
  then have inv: "scene_inv s" using reachable_inv by blast
  then have sc: "scene s" "camera s \<noteq> None" "gizmo_inv s" by (simp_all add: scene_inv_def)
  from a have r: "currentRobot s = Some r" and n: "fst (findJoint m r) = None" by simp_all
  from pointerDown_unresolved(1) [OF sc(1,2) r n sc(3)]
  have "manipulation_idle (pointerDown (Some m) s)"
    by (simp add: gizmo_view_eq_iff manipulation_idle_def)
  then show "pointerDown (Some m) s \<noteq> s" using a by auto
next
  assume "fst (findJoint m r) = Some j"
  then show "joint_type j \<noteq> Fixed" using findJoint_found by blast
next
  assume a: "reachable l s \<and> currentRobot s = Some r"
  then have inv: "scene_inv s" using reachable_inv by blast
  from pick_attached_iff [OF inv, of r m] a
  show "\<not> manipulation_idle (pointerDown (Some m) s)
           \<longleftrightarrow> (\<exists>j. fst (findJoint m r) = Some j
                    \<and> (joint_type j = Revolute \<or> joint_type j = Continuous
                        \<or> joint_type j = Prismatic))"
    by (simp add: movable_def)
qed

theorem C10_pick_and_gizmo_witness:
  "\<not> manipulation_idle (pointerDown (Some (sample_mesh 40 None)) (arm_loaded FirstListing Revolute))
   \<and> length (liveGizmos (pointerDown (Some (sample_mesh 40 None))
                            (arm_loaded FirstListing Revolute))) \<le> 1
   \<and> hoveredJoint (pointerDown (Some (sample_mesh 99 None))
                     (pointerDown (Some (sample_mesh 40 None)) (arm_loaded FirstListing Revolute)))
       = None"
proof -
  let ?s = "arm_loaded FirstListing Revolute"
  let ?s' = "pointerDown (Some (sample_mesh 40 None)) ?s"
  have r': "reachable FirstListing ?s'"
    using reachable.event [where l = FirstListing and s = ?s
        and e = "PointerDown (Some (sample_mesh 40 None))" and d = demo_deserialize]
      arm_loaded_facts(1) [of FirstListing Revolute]
    by simp
  have cr: "currentRobot ?s' = Some (arm_robot Revolute)"
    using pointerDown_fields [of "Some (sample_mesh 40 None)" ?s] arm_loaded_facts(2) by simp
  have f99: "findJoint (sample_mesh 99 None) (arm_robot Revolute) = (None, [])"
    by (simp add: findJoint_def arm_robot_def searchStep_def matchingMeshes_def arm_joint_def Let_def sample_mesh_def
        arm_link_def box_visual_def visualHasMesh_def)
  have 1: "\<not> manipulation_idle ?s'"
    using C10_pick_and_gizmo [of FirstListing ?s "arm_robot Revolute" "sample_mesh 40 None"
        "arm_joint Revolute"]
    by (simp add: arm_loaded_facts arm_findJoint arm_joint_def)
  have 2: "length (liveGizmos ?s') \<le> 1"
    using C10_pick_and_gizmo [of FirstListing ?s' "arm_robot Revolute" "sample_mesh 40 None"
        "arm_joint Revolute"] r'
    by simp
  have 3: "hoveredJoint (pointerDown (Some (sample_mesh 99 None)) ?s') = None"
    using C10_pick_and_gizmo [of FirstListing ?s' "arm_robot Revolute" "sample_mesh 99 None"
        "arm_joint Revolute"] r' cr f99
    by simp
  show ?thesis using 1 2 3 by simp
qed

text \<open>
  On the one-joint robot with a Planar joint, a pick on the arm's mesh resolves to that
  joint, which is not fixed, and no gizmo is attached afterwards.
\<close>

theorem C10_counterexample:
  "currentRobot (arm_loaded FirstListing Planar) = Some (arm_robot Planar)
   \<and> fst (findJoint (sample_mesh 40 None) (arm_robot Planar)) = Some (arm_joint Planar)
   \<and> joint_type (arm_joint Planar) \<noteq> Fixed
   \<and> planeRotationGizmo (pointerDown (Some (sample_mesh 40 None)) (arm_loaded FirstListing Planar))
       = None
   \<and> planePositionGizmo (pointerDown (Some (sample_mesh 40 None)) (arm_loaded FirstListing Planar))
       = None"
proof -
  have "manipulation_idle (pointerDown (Some (sample_mesh 40 None)) (arm_loaded FirstListing Planar))"
    by (rule pointerDown_idle) (auto simp: arm_loaded_facts arm_findJoint arm_joint_def)
  then show ?thesis
    by (simp add: manipulation_idle_def arm_loaded_facts arm_findJoint arm_joint_def)
qed


end
